theory Spec2Isabelle
  imports Main
begin

section \<open>Values exchanged with the API\<close>

text \<open>
  The parsed body of a response (\<open>await resp.json()\<close>) and the values stored in a
  query's \<open>variables\<close> are JSON values. Objects are association lists in key order;
  a parsed object never binds a key twice. Numbers are kept as integers: no claim
  depends on a fractional value.
\<close>

datatype json =
    JNull
  | JBool bool
  | JNum int
  | JStr string
  | JArr "json list"
  | JObj "(string \<times> json) list"

text \<open>Python's truth value of a parsed JSON value (\<open>if not response\<close>, \<open>if not errors\<close>).\<close>

fun truthy :: "json \<Rightarrow> bool" where
  "truthy JNull = False"
| "truthy (JBool b) = b"
| "truthy (JNum n) = (n \<noteq> 0)"
| "truthy (JStr s) = (s \<noteq> [])"
| "truthy (JArr xs) = (xs \<noteq> [])"
| "truthy (JObj kvs) = (kvs \<noteq> [])"

text \<open>\<open>str.startswith\<close>.\<close>

definition startswith :: "string \<Rightarrow> string \<Rightarrow> bool" where
  "startswith s p = (take (length p) s = p)"

section \<open>Exceptions\<close>

text \<open>
  Every exception the modelled code can raise is a value. The first six are the
  package's own classes (imported from \<open>.exceptions\<close>; they derive from \<open>Exception\<close>
  and from none of the transport classes). \<open>TimeoutError\<close> is \<open>asyncio.TimeoutError\<close>;
  \<open>ClientError\<close> stands for an \<open>aiohttp.ClientError\<close> that is not a response error
  (a connection failure) and carries its text; \<open>ClientResponseError\<close> is what
  \<open>resp.raise_for_status()\<close> raises and carries the status and its text.
\<close>

datatype exn =
    AuthException string
  | AuthRequiredException string
  | RequestException string
  | NetworkError string
  | SmartTradingNotEnabledException string
  | SmartChargingNotEnabledException string
  | TimeoutError
  | ClientError string
  | ClientResponseError int string
  | KeyError string
  | TypeError string
  | ValueError string
  | AttributeError string
  | OtherException string

text \<open>\<open>str(error)\<close>, as interpolated into \<open>f"Request failed: {error}"\<close>.\<close>

fun str_exn :: "exn \<Rightarrow> string" where
  "str_exn (AuthException m) = m"
| "str_exn (AuthRequiredException m) = m"
| "str_exn (RequestException m) = m"
| "str_exn (NetworkError m) = m"
| "str_exn (SmartTradingNotEnabledException m) = m"
| "str_exn (SmartChargingNotEnabledException m) = m"
| "str_exn TimeoutError = []"
| "str_exn (ClientError m) = m"
| "str_exn (ClientResponseError status m) = m"
| "str_exn (KeyError k) = [CHR 0x27] @ k @ [CHR 0x27]"
| "str_exn (TypeError m) = m"
| "str_exn (ValueError m) = m"
| "str_exn (AttributeError m) = m"
| "str_exn (OtherException m) = m"

section \<open>The Error Classifier: \<open>FrankEnergie._handle_errors\<close>\<close>

text \<open>
  What one pass of the body of \<open>for error in errors\<close> does: it raises, it executes
  \<open>return\<close>, or it falls through to the next entry.
\<close>

datatype step = Raise exn | Return | Continue

text \<open>
  \<open>error["message"]\<close> raises \<open>KeyError\<close> on a mapping without the key and \<open>TypeError\<close>
  on a value that is no mapping. The four leading comparisons are \<open>==\<close> against string
  literals, which a message that is not a string fails; such a message then reaches
  \<open>message.startswith\<close>, which raises \<open>AttributeError\<close>. The branch that only logs
  (the Dutch message) and the final \<open>else\<close> fall through.
\<close>

definition handle_error_message :: "string \<Rightarrow> step" where
  "handle_error_message message =
    (if message = ''user-error:password-invalid'' then Raise (AuthException ''Invalid password'')
     else if message = ''user-error:auth-not-authorised'' then Raise (AuthException ''Not authorized'')
     else if message = ''user-error:auth-required''
       then Raise (AuthRequiredException ''Authentication required'')
     else if message = ''Graphql validation error''
       then Raise (AuthException ''Request failed: Graphql validation error'')
     else if startswith message ''No marketprices found for segment'' then Return
     else if startswith message ''No connections found for user''
       then Raise (AuthException (''Request failed: '' @ message))
     else if message = ''user-error:smart-trading-not-enabled''
       then Raise (SmartTradingNotEnabledException ''Smart trading is not enabled for this user.'')
     else if message = ''user-error:smart-charging-not-enabled''
       then Raise (SmartChargingNotEnabledException ''Smart charging is not enabled for this user.'')
     else if message = [CHR 0x27] @ ''Base'' @ [CHR 0x27] @ '' niet aanwezig in prijzen verzameling''
       then Continue
     else if message = ''request-error:request-not-supported-in-country''
       then Raise (AuthException (''Request not supported in the user'' @ [CHR 0x27] @ ''s country''))
     else Continue)"

definition handle_error_entry :: "json \<Rightarrow> step" where
  "handle_error_entry error =
    (case error of
       JObj kvs \<Rightarrow>
         (case map_of kvs ''message'' of
            None \<Rightarrow> Raise (KeyError ''message'')
          | Some (JStr message) \<Rightarrow> handle_error_message message
          | Some _ \<Rightarrow> Raise (AttributeError ''startswith''))
     | _ \<Rightarrow> Raise (TypeError ''indices must be integers''))"

fun handle_errors_loop :: "json list \<Rightarrow> exn + unit" where
  "handle_errors_loop [] = Inr ()"
| "handle_errors_loop (error # errors) =
    (case handle_error_entry error of
       Raise e \<Rightarrow> Inl e
     | Return \<Rightarrow> Inr ()
     | Continue \<Rightarrow> handle_errors_loop errors)"

text \<open>
  What \<open>for error in errors\<close> iterates over: the elements of an array, the keys of
  an object, the characters of a string; any other value is not iterable.
\<close>

fun py_iter :: "json \<Rightarrow> exn + json list" where
  "py_iter (JArr xs) = Inr xs"
| "py_iter (JObj kvs) = Inr (map (\<lambda>kv. JStr (fst kv)) kvs)"
| "py_iter (JStr s) = Inr (map (\<lambda>c. JStr [c]) s)"
| "py_iter _ = Inl (TypeError ''object is not iterable'')"

text \<open>
  \<open>response.get("errors")\<close> needs a mapping: a truthy body that is an array, a
  string or a number has no \<open>get\<close>.
\<close>

definition handle_errors :: "json \<Rightarrow> exn + unit" where
  "handle_errors response =
    (if \<not> truthy response then Inr ()
     else case response of
       JObj kvs \<Rightarrow>
         (case map_of kvs ''errors'' of
            None \<Rightarrow> Inr ()
          | Some errors \<Rightarrow>
              if \<not> truthy errors then Inr ()
              else (case py_iter errors of
                      Inl e \<Rightarrow> Inl e
                    | Inr entries \<Rightarrow> handle_errors_loop entries))
     | _ \<Rightarrow> Inl (AttributeError ''get''))"

section \<open>Dictionaries\<close>

text \<open>
  A Python \<open>dict\<close> as an association list in insertion order. \<open>d[k] = v\<close> replaces
  the value of an existing key in place and appends a new key; \<open>d.update(e)\<close> does so
  for every entry of \<open>e\<close> in order; \<open>k in d\<close> and \<open>d.get(k)\<close> are \<open>map_of\<close>.
\<close>

fun dict_set :: "('k \<times> 'v) list \<Rightarrow> 'k \<Rightarrow> 'v \<Rightarrow> ('k \<times> 'v) list" where
  "dict_set [] k v = [(k, v)]"
| "dict_set (kv # d) k v = (if fst kv = k then (k, v) # d else kv # dict_set d k v)"

definition dict_update :: "('k \<times> 'v) list \<Rightarrow> ('k \<times> 'v) list \<Rightarrow> ('k \<times> 'v) list" where
  "dict_update d e = fold (\<lambda>kv acc. dict_set acc (fst kv) (snd kv)) e d"

definition dict_contains :: "('k \<times> 'v) list \<Rightarrow> 'k \<Rightarrow> bool" where
  "dict_contains d k = (map_of d k \<noteq> None)"

section \<open>The Query Builder: \<open>FrankEnergieQuery\<close> and \<open>sanitize_query\<close>\<close>

text \<open>
  A query object holds a reference to its \<open>variables\<close> dictionary, and \<open>to_dict\<close>
  stores that same reference under \<open>"variables"\<close>: the dictionary lives in a heap of
  dictionaries, addressed by number, so that sharing is visible. The dictionary that
  \<open>to_dict\<close> builds is new at every call and is used by value; it is a record of its
  three entries.
\<close>

type_synonym addr = nat
type_synonym pydict = "(string \<times> json) list"
type_synonym heap = "addr \<Rightarrow> pydict"

record FrankEnergieQuery =
  query :: string
  operation_name :: string
  variables :: addr

record query_dict =
  d_query :: string
  d_operationName :: string
  d_variables :: addr

definition to_dict :: "FrankEnergieQuery \<Rightarrow> query_dict" where
  "to_dict q = \<lparr>d_query = query q, d_operationName = operation_name q, d_variables = variables q\<rparr>"

text \<open>
  \<open>sanitized_query["variables"]["password"] = "****"\<close> assigns into the dictionary
  that \<open>sanitized_query["variables"]\<close> refers to.
\<close>

definition sanitize_query :: "heap \<Rightarrow> FrankEnergieQuery \<Rightarrow> query_dict \<times> heap" where
  "sanitize_query h q =
    (let sanitized_query = to_dict q in
     if dict_contains (h (d_variables sanitized_query)) ''password''
     then (sanitized_query,
           h(d_variables sanitized_query :=
               dict_set (h (d_variables sanitized_query)) ''password'' (JStr ''****'')))
     else (sanitized_query, h))"

text \<open>The JSON body that \<open>json=payload\<close> serialises from a \<open>to_dict\<close> result.\<close>

definition json_payload :: "heap \<Rightarrow> query_dict \<Rightarrow> json" where
  "json_payload h d =
    JObj [(''query'', JStr (d_query d)),
          (''operationName'', JStr (d_operationName d)),
          (''variables'', JObj (h (d_variables d)))]"

section \<open>The client and the world it acts on\<close>

text \<open>
  \<open>Authentication\<close> (imported from \<open>.authentication\<close>) holds the two tokens it is
  constructed with.
\<close>

record Authentication =
  authToken :: "string option"
  refreshToken :: "string option"

text \<open>A request handed to \<open>session.post\<close>: the headers and the JSON body.\<close>

type_synonym request = "(string \<times> string) list \<times> json"

text \<open>
  The world: the heap of dictionaries with its next free address, the requests handed
  to the transport so far, how many \<open>ClientSession\<close> objects have been created (a
  session is named by its number) and which of them have been closed. The client
  object adds its three fields.
\<close>

record world =
  cells :: heap
  fresh :: addr
  sent :: "request list"
  sessions_created :: nat
  sessions_closed :: "nat list"

record state = world +
  session :: "nat option"
  close_session :: bool
  auth :: "Authentication option"

text \<open>\<open>FrankEnergie.__init__\<close>; \<open>if auth_token or refresh_token\<close> is Python truth of two optional strings.\<close>

definition str_truthy :: "string option \<Rightarrow> bool" where
  "str_truthy s = (case s of None \<Rightarrow> False | Some t \<Rightarrow> t \<noteq> [])"

definition FrankEnergie_init ::
  "world \<Rightarrow> nat option \<Rightarrow> string option \<Rightarrow> string option \<Rightarrow> state" where
  "FrankEnergie_init w clientsession auth_token refresh_token =
    \<lparr>cells = cells w, fresh = fresh w, sent = sent w,
     sessions_created = sessions_created w, sessions_closed = sessions_closed w,
     session = clientsession,
     close_session = (clientsession = None),
     auth = (if str_truthy auth_token \<or> str_truthy refresh_token
             then Some \<lparr>authToken = auth_token, refreshToken = refresh_token\<rparr>
             else None)\<rparr>"

definition is_authenticated :: "state \<Rightarrow> bool" where
  "is_authenticated st = (case auth st of None \<Rightarrow> False | Some a \<Rightarrow> authToken a \<noteq> None)"

definition FrankEnergie_ensure_session :: "state \<Rightarrow> state" where
  "FrankEnergie_ensure_session st =
    (if session st = None
     then st\<lparr>sessions_created := Suc (sessions_created st),
             session := Some (sessions_created st),
             close_session := True\<rparr>
     else st)"

text \<open>
  \<open>__aexit__\<close> awaits \<open>self.close()\<close>. The class body defines \<open>__init__\<close>, \<open>auth\<close>,
  \<open>is_authenticated\<close>, \<open>generate_system_user_agent\<close>, \<open>_ensure_session\<close>, \<open>_query\<close>,
  \<open>_process_diagnostic_data\<close>, \<open>_handle_errors\<close>, the operation methods, the two
  date validators, \<open>__aenter__\<close>, \<open>__aexit__\<close>, \<open>introspect_schema\<close> and
  \<open>get_diagnostic_data\<close>, it has no base class, and no instance attribute \<open>close\<close> is
  ever assigned: the attribute lookup raises \<open>AttributeError\<close> and nothing else
  happens.
\<close>

definition FrankEnergie_aexit :: "state \<Rightarrow> (exn + unit) \<times> state" where
  "FrankEnergie_aexit st = (Inl (AttributeError ''close''), st)"

section \<open>The Request Pipeline: \<open>FrankEnergie._query\<close>\<close>

definition compose_headers ::
  "Authentication option \<Rightarrow> (string \<times> string) list option \<Rightarrow> (string \<times> string) list" where
  "compose_headers a extra_headers =
    (let headers = [(''Content-Type'', ''application/json''), (''Accept'', ''application/json'')];
         headers = (case a of
                      None \<Rightarrow> headers
                    | Some au \<Rightarrow>
                        (case authToken au of
                           None \<Rightarrow> headers
                         | Some token \<Rightarrow> dict_set headers ''Authorization'' (''Bearer '' @ token)))
     in case extra_headers of
          None \<Rightarrow> headers
        | Some extra \<Rightarrow> if extra \<noteq> [] then dict_update headers extra else headers)"

text \<open>
  What the transport does with a request: an exception raised inside the
  \<open>async with self._session.post(...)\<close> block (a timeout, a connection failure, a body
  that is not JSON), or a response with its status, the text aiohttp gives the
  status error of that response, and its parsed body.
\<close>

datatype http_outcome = TransportRaises exn | Response int string json

text \<open>
  \<open>isinstance(error, (asyncio.TimeoutError, ClientError, KeyError))\<close>, the test of the
  first \<open>except\<close> clause. In aiohttp \<open>ClientResponseError\<close> is a subclass of
  \<open>ClientError\<close>.
\<close>

fun isinstance_Timeout_ClientError_KeyError :: "exn \<Rightarrow> bool" where
  "isinstance_Timeout_ClientError_KeyError TimeoutError = True"
| "isinstance_Timeout_ClientError_KeyError (ClientError m) = True"
| "isinstance_Timeout_ClientError_KeyError (ClientResponseError status m) = True"
| "isinstance_Timeout_ClientError_KeyError (KeyError k) = True"
| "isinstance_Timeout_ClientError_KeyError _ = False"

fun isinstance_ClientResponseError :: "exn \<Rightarrow> bool" where
  "isinstance_ClientResponseError (ClientResponseError status m) = True"
| "isinstance_ClientResponseError _ = False"

fun exn_status :: "exn \<Rightarrow> int" where
  "exn_status (ClientResponseError status m) = status"
| "exn_status _ = 0"

text \<open>
  The three \<open>except\<close> clauses of \<open>_query\<close>, tried in the order they are written; the
  last one re-raises.
\<close>

definition query_except :: "exn \<Rightarrow> exn" where
  "query_except error =
    (if isinstance_Timeout_ClientError_KeyError error
       then NetworkError (''Request failed: '' @ str_exn error)
     else if isinstance_ClientResponseError error
       then (if exn_status error = 401 then AuthRequiredException ''Authentication required.''
             else if exn_status error = 403 then AuthException ''Forbidden: Invalid credentials.''
             else if exn_status error = 400 then RequestException ''Bad request: Invalid query.''
             else if exn_status error = 500 then AuthException ''Internal server error.''
             else AuthException (''Unexpected response: '' @ str_exn error))
     else error)"

text \<open>
  The \<open>try\<close> block: \<open>resp.raise_for_status()\<close> raises for a status of 400 and
  above, an empty body is returned as \<open>{}\<close>, and a body that the classifier accepts is
  returned as it is. The query argument is a \<open>FrankEnergieQuery\<close>, so the branch for
  an object without \<open>to_dict\<close> is not taken.
\<close>

definition query_try :: "http_outcome \<Rightarrow> exn + json" where
  "query_try outcome =
    (case outcome of
       TransportRaises e \<Rightarrow> Inl e
     | Response status detail response_data \<Rightarrow>
         if 400 \<le> status then Inl (ClientResponseError status detail)
         else if \<not> truthy response_data then Inr (JObj [])
         else (case handle_errors response_data of
                 Inl e \<Rightarrow> Inl e
               | Inr u \<Rightarrow> Inr response_data))"

definition FrankEnergie_query ::
  "(request \<Rightarrow> http_outcome) \<Rightarrow> state \<Rightarrow> FrankEnergieQuery \<Rightarrow>
   (string \<times> string) list option \<Rightarrow> (exn + json) \<times> state" where
  "FrankEnergie_query net st q extra_headers =
    (let headers = compose_headers (auth st) extra_headers;
         st = FrankEnergie_ensure_session st;
         payload = json_payload (cells st) (to_dict q);
         st = st\<lparr>sent := sent st @ [(headers, payload)]\<rparr>
     in (case query_try (net (headers, payload)) of
           Inl e \<Rightarrow> Inl (query_except e)
         | Inr response \<Rightarrow> Inr response,
         st))"

section \<open>Dates and the date validators\<close>

text \<open>
  A \<open>datetime.date\<close> is its year, month and day.
\<close>

type_synonym date = "nat \<times> nat \<times> nat"

definition date_gt :: "date \<Rightarrow> date \<Rightarrow> bool" where
  "date_gt a b =
    (case a of (ya, ma, da) \<Rightarrow> case b of (yb, mb, db) \<Rightarrow>
       ya > yb \<or> (ya = yb \<and> (ma > mb \<or> (ma = mb \<and> da > db))))"

definition is_leap :: "nat \<Rightarrow> bool" where
  "is_leap y = (y mod 4 = 0 \<and> (y mod 100 \<noteq> 0 \<or> y mod 400 = 0))"

definition days_in_month :: "nat \<Rightarrow> nat \<Rightarrow> nat" where
  "days_in_month y m =
    (if m = 2 then (if is_leap y then 29 else 28)
     else if m = 4 \<or> m = 6 \<or> m = 9 \<or> m = 11 then 30 else 31)"

text \<open>The \<open>date(year, month, day)\<close> constructor, which \<open>strptime\<close> ends with.\<close>

definition make_date :: "nat \<Rightarrow> nat \<Rightarrow> nat \<Rightarrow> exn + date" where
  "make_date y m d =
    (if y < 1 \<or> 9999 < y then Inl (ValueError ''year is out of range'')
     else if m < 1 \<or> 12 < m then Inl (ValueError ''month must be in 1..12'')
     else if d < 1 \<or> days_in_month y m < d then Inl (ValueError ''day is out of range for month'')
     else Inr (y, m, d))"

definition digit_char :: "nat \<Rightarrow> char" where
  "digit_char n = ''0123456789'' ! (n mod 10)"

fun pad_num :: "nat \<Rightarrow> nat \<Rightarrow> string" where
  "pad_num 0 n = []"
| "pad_num (Suc w) n = pad_num w (n div 10) @ [digit_char n]"

text \<open>\<open>date.isoformat()\<close>, which is also \<open>str(date)\<close>.\<close>

definition isoformat :: "date \<Rightarrow> string" where
  "isoformat dt =
    (case dt of (y, m, d) \<Rightarrow> pad_num 4 y @ ''-'' @ pad_num 2 m @ ''-'' @ pad_num 2 d)"

text \<open>
  The string that the validator examines is a Python \<open>str\<close>: a list of Unicode code
  points. \<open>codepoints\<close> gives the code points of a text written in 8-bit characters.
  In a pattern on a \<open>str\<close>, \<open>\d\<close> matches every Unicode decimal digit, and \<open>int\<close> reads
  such a digit by its value. Which code points are decimal digits, and of which
  value, is a table of the Python that runs the code; it is the argument \<open>dec\<close> of
  what follows, giving the value of a code point that is a decimal digit.
\<close>

type_synonym codepoint = nat

definition codepoints :: "string \<Rightarrow> codepoint list" where
  "codepoints s = map of_char s"

definition is_digit :: "(codepoint \<Rightarrow> nat option) \<Rightarrow> codepoint \<Rightarrow> bool" where
  "is_digit dec c = (dec c \<noteq> None)"

text \<open>\<open>digit_val\<close> is applied to decimal digits only; for them it is the table's value.\<close>

definition digit_val :: "(codepoint \<Rightarrow> nat option) \<Rightarrow> codepoint \<Rightarrow> nat" where
  "digit_val dec c = (case dec c of None \<Rightarrow> 0 | Some v \<Rightarrow> v)"

text \<open>\<open>int(text)\<close> on a text of decimal digits.\<close>

definition number :: "(codepoint \<Rightarrow> nat option) \<Rightarrow> codepoint list \<Rightarrow> nat" where
  "number dec s = foldl (\<lambda>n c. 10 * n + digit_val dec c) 0 s"

text \<open>
  Regular expressions, as far as the pattern of the validator needs them: a digit, a
  literal character, a sequence, and a repetition between two bounds. \<open>rests dec r s\<close>
  lists what can remain of \<open>s\<close> after a prefix that \<open>r\<close> matches, over every way of
  matching; \<open>re.fullmatch\<close> succeeds when some way leaves nothing.
\<close>

datatype regex = Digit | Lit codepoint | Seq regex regex | Repeat nat nat regex

primrec rests :: "(codepoint \<Rightarrow> nat option) \<Rightarrow> regex \<Rightarrow> codepoint list \<Rightarrow> codepoint list list" where
  "rests dec Digit = (\<lambda>s. case s of [] \<Rightarrow> [] | c # cs \<Rightarrow> if is_digit dec c then [cs] else [])"
| "rests dec (Lit a) = (\<lambda>s. case s of [] \<Rightarrow> [] | c # cs \<Rightarrow> if c = a then [cs] else [])"
| "rests dec (Seq r1 r2) = (\<lambda>s. concat (map (rests dec r2) (rests dec r1 s)))"
| "rests dec (Repeat lo hi r) =
    (\<lambda>s. concat (map (\<lambda>n. ((\<lambda>ss. concat (map (rests dec r) ss)) ^^ n) [s]) [lo..<Suc hi]))"

definition fullmatch :: "(codepoint \<Rightarrow> nat option) \<Rightarrow> regex \<Rightarrow> codepoint list \<Rightarrow> bool" where
  "fullmatch dec r s = ([] \<in> set (rests dec r s))"

text \<open>The pattern \<open>\d{4}(-\d{2}){0,2}\<close>.\<close>

definition start_date_pattern :: regex where
  "start_date_pattern =
    Seq (Repeat 4 4 Digit) (Repeat 0 2 (Seq (Lit (of_char (CHR ''-''))) (Repeat 2 2 Digit)))"

text \<open>
  \<open>datetime.strptime(s, "%Y-%m-%d")\<close>. The format compiles to the expression
  \<open>(\d\d\d\d)-(1[0-2]|0[1-9]|[1-9])-(3[0-1]|[1-2]\d|0[1-9]|[1-9]| [1-9])\<close>, matched
  at the start of the string with the alternatives tried in order; the first way of
  matching is taken, text left over after it is an error, and the three numbers go
  to the \<open>date\<close> constructor. The classes in brackets hold ASCII digits; \<open>\d\<close> is any
  decimal digit.
\<close>

definition year_alts :: "(codepoint \<Rightarrow> nat option) \<Rightarrow> codepoint list \<Rightarrow> (nat \<times> codepoint list) list" where
  "year_alts dec s =
    (if 4 \<le> length s \<and> list_all (is_digit dec) (take 4 s)
     then [(number dec (take 4 s), drop 4 s)] else [])"

definition dash :: "codepoint list \<Rightarrow> codepoint list list" where
  "dash s = (case s of [] \<Rightarrow> [] | c # cs \<Rightarrow> if c = of_char (CHR ''-'') then [cs] else [])"

definition two_chars ::
  "(codepoint \<Rightarrow> nat option) \<Rightarrow> string \<Rightarrow> string \<Rightarrow> codepoint list \<Rightarrow> (nat \<times> codepoint list) list" where
  "two_chars dec firsts seconds s =
    (case s of
       a # b # r \<Rightarrow>
         if a \<in> set (codepoints firsts) \<and> b \<in> set (codepoints seconds)
         then [(number dec [a, b], r)] else []
     | _ \<Rightarrow> [])"

definition one_or_two_then_digit ::
  "(codepoint \<Rightarrow> nat option) \<Rightarrow> codepoint list \<Rightarrow> (nat \<times> codepoint list) list" where
  "one_or_two_then_digit dec s =
    (case s of
       a # b # r \<Rightarrow>
         if a \<in> set (codepoints ''12'') \<and> is_digit dec b then [(number dec [a, b], r)] else []
     | _ \<Rightarrow> [])"

definition one_char ::
  "(codepoint \<Rightarrow> nat option) \<Rightarrow> string \<Rightarrow> codepoint list \<Rightarrow> (nat \<times> codepoint list) list" where
  "one_char dec firsts s =
    (case s of
       a # r \<Rightarrow> if a \<in> set (codepoints firsts) then [(number dec [a], r)] else []
     | [] \<Rightarrow> [])"

definition month_alts :: "(codepoint \<Rightarrow> nat option) \<Rightarrow> codepoint list \<Rightarrow> (nat \<times> codepoint list) list" where
  "month_alts dec s =
    two_chars dec ''1'' ''012'' s @ two_chars dec ''0'' ''123456789'' s
    @ one_char dec ''123456789'' s"

definition day_alts :: "(codepoint \<Rightarrow> nat option) \<Rightarrow> codepoint list \<Rightarrow> (nat \<times> codepoint list) list" where
  "day_alts dec s =
    two_chars dec ''3'' ''01'' s @ one_or_two_then_digit dec s
    @ two_chars dec ''0'' ''123456789'' s
    @ one_char dec ''123456789'' s
    @ (case s of
         a # b # r \<Rightarrow>
           if a = of_char (CHR '' '') \<and> b \<in> set (codepoints ''123456789'')
           then [(number dec [b], r)] else []
       | _ \<Rightarrow> [])"

definition strptime_matches ::
  "(codepoint \<Rightarrow> nat option) \<Rightarrow> codepoint list \<Rightarrow> (nat \<times> nat \<times> nat \<times> codepoint list) list" where
  "strptime_matches dec s =
    concat (map (\<lambda>(y, r1). concat (map (\<lambda>r2.
      concat (map (\<lambda>(m, r3). concat (map (\<lambda>r4.
        map (\<lambda>(d, r). (y, m, d, r)) (day_alts dec r4)) (dash r3))) (month_alts dec r2))) (dash r1)))
      (year_alts dec s))"

definition strptime_Ymd :: "(codepoint \<Rightarrow> nat option) \<Rightarrow> codepoint list \<Rightarrow> exn + date" where
  "strptime_Ymd dec s =
    (case strptime_matches dec s of
       [] \<Rightarrow> Inl (ValueError ''time data does not match format'')
     | (y, m, d, r) # other \<Rightarrow>
         if r \<noteq> [] then Inl (ValueError ''unconverted data remains'') else make_date y m d)"

text \<open>\<open>_validate_not_future_date\<close>; \<open>utc_today\<close> is \<open>datetime.now(timezone.utc).date()\<close>.\<close>

definition validate_not_future_date :: "date \<Rightarrow> date \<Rightarrow> exn + unit" where
  "validate_not_future_date utc_today v =
    (if date_gt v utc_today
     then Inl (ValueError (''De '' @ [CHR 0x27] @ ''start_date'' @ [CHR 0x27] @ '' mag niet in de toekomst liggen.''))
     else Inr ())"

text \<open>
  \<open>_validate_start_date_format\<close>: the argument is a string or a date, and a date is
  first replaced by its \<open>isoformat()\<close>. Inside the \<open>try\<close> both \<open>strptime\<close> and the
  future test raise \<open>ValueError\<close>, which the \<open>except ValueError\<close> clause raises again
  with a longer text.
\<close>

datatype start_date_arg = StrArg "codepoint list" | DateArg date

definition validate_start_date_format ::
  "(codepoint \<Rightarrow> nat option) \<Rightarrow> date \<Rightarrow> start_date_arg \<Rightarrow> exn + unit" where
  "validate_start_date_format dec utc_today arg =
    (let start_date = (case arg of DateArg dt \<Rightarrow> codepoints (isoformat dt) | StrArg s \<Rightarrow> s) in
     if \<not> fullmatch dec start_date_pattern start_date
     then Inl (ValueError (''De '' @ [CHR 0x27] @ ''start_date'' @ [CHR 0x27] @ '' moet een formaat hebben zoals ''
             @ [CHR 0x27] @ ''YYYY'' @ [CHR 0x27] @ '', '' @ [CHR 0x27] @ ''YYYY-MM'' @ [CHR 0x27]
             @ '' of '' @ [CHR 0x27] @ ''YYYY-MM-DD'' @ [CHR 0x27] @ ''.''))
     else if length start_date = 10
     then (case (case strptime_Ymd dec start_date of
                   Inl e \<Rightarrow> Inl e
                 | Inr date_obj \<Rightarrow>
                     if date_gt date_obj utc_today
                     then Inl (ValueError (''De '' @ [CHR 0x27] @ ''start_date'' @ [CHR 0x27] @ '' mag niet in de toekomst liggen.''))
                     else Inr ()) of
             Inl (ValueError e) \<Rightarrow>
               Inl (ValueError (''De '' @ [CHR 0x27] @ ''start_date'' @ [CHR 0x27] @ '' heeft geen geldig datumformaat: '' @ e))
           | Inl e \<Rightarrow> Inl e
           | Inr u \<Rightarrow> Inr u)
     else Inr ())"

section \<open>The Operation Methods\<close>

text \<open>
  The collaborators of the client that are not part of it: the transport, the
  \<open>from_dict\<close> constructors of the model classes (each returns a model or raises),
  \<open>Authentication.from_dict\<close>, and \<open>date.today()\<close>.
\<close>

datatype model_class =
    EnergyConsumption | MonthSummary | EnodeChargers | Invoices | Me | UserSites | User
  | MarketPrices_userprices | PeriodUsageAndCosts | SmartBattery | SmartBatteryDetails
  | SmartBatterySessions

record 'm collaborators =
  net :: "request \<Rightarrow> http_outcome"
  from_dict :: "model_class \<Rightarrow> json \<Rightarrow> exn + 'm"
  auth_from_dict :: "json \<Rightarrow> exn + Authentication"
  today :: date

text \<open>
  What an operation returns: a model, the new credentials, the empty mapping \<open>{}\<close> of
  \<open>enode_chargers\<close>, or \<open>SmartBatteries(list)\<close>.
\<close>

datatype 'm result = Model 'm | Credentials Authentication | EmptyDict | SmartBatteries "'m list"

definition exn_bind :: "exn + 'a \<Rightarrow> ('a \<Rightarrow> exn + 'b) \<Rightarrow> exn + 'b" where
  "exn_bind x f = (case x of Inl e \<Rightarrow> Inl e | Inr v \<Rightarrow> f v)"

definition json_of_opt :: "string option \<Rightarrow> json" where
  "json_of_opt s = (case s of None \<Rightarrow> JNull | Some t \<Rightarrow> JStr t)"

text \<open>\<open>key in container\<close>, \<open>container[key]\<close>, \<open>container.get(key)\<close> and \<open>len(container)\<close> on parsed JSON.\<close>

fun is_substring :: "string \<Rightarrow> string \<Rightarrow> bool" where
  "is_substring p [] = (p = [])"
| "is_substring p (c # s) = (startswith (c # s) p \<or> is_substring p s)"

fun py_contains :: "json \<Rightarrow> string \<Rightarrow> exn + bool" where
  "py_contains (JObj kvs) k = Inr (dict_contains kvs k)"
| "py_contains (JArr xs) k = Inr (JStr k \<in> set xs)"
| "py_contains (JStr s) k = Inr (is_substring k s)"
| "py_contains _ k = Inl (TypeError ''argument is not iterable'')"

fun py_getitem :: "json \<Rightarrow> string \<Rightarrow> exn + json" where
  "py_getitem (JObj kvs) k = (case map_of kvs k of None \<Rightarrow> Inl (KeyError k) | Some v \<Rightarrow> Inr v)"
| "py_getitem _ k = Inl (TypeError ''indices must be integers'')"

fun py_get :: "json \<Rightarrow> string \<Rightarrow> exn + json" where
  "py_get (JObj kvs) k = (case map_of kvs k of None \<Rightarrow> Inr JNull | Some v \<Rightarrow> Inr v)"
| "py_get _ k = Inl (AttributeError ''get'')"

fun py_len :: "json \<Rightarrow> exn + nat" where
  "py_len (JArr xs) = Inr (length xs)"
| "py_len (JObj kvs) = Inr (length kvs)"
| "py_len (JStr s) = Inr (length s)"
| "py_len _ = Inl (TypeError ''object has no len()'')"

text \<open>
  \<open>FrankEnergieQuery(text, name, {...})\<close>: the dictionary literal is a new
  dictionary, and the constructor keeps the reference to it (it creates an empty one
  when none is given). Every caller passes a dictionary or nothing, so the
  constructor's \<open>TypeError\<close> is not raised. The GraphQL documents are constants of the
  source; each is written here by its opening.
\<close>

definition new_query :: "state \<Rightarrow> string \<Rightarrow> string \<Rightarrow> pydict \<Rightarrow> FrankEnergieQuery \<times> state" where
  "new_query st text name vars =
    (\<lparr>query = text, operation_name = name, variables = fresh st\<rparr>,
     st\<lparr>cells := (cells st)(fresh st := vars), fresh := Suc (fresh st)\<rparr>)"

text \<open>\<open>response = await self._query(query); return X.from_dict(response)\<close>.\<close>

definition query_from_dict ::
  "'m collaborators \<Rightarrow> state \<Rightarrow> FrankEnergieQuery \<Rightarrow> model_class \<Rightarrow> (exn + 'm result) \<times> state" where
  "query_from_dict env st q cls =
    (case FrankEnergie_query (net env) st q None of
       (Inl e, st') \<Rightarrow> (Inl e, st')
     | (Inr response, st') \<Rightarrow>
         (case from_dict env cls response of
            Inl e \<Rightarrow> (Inl e, st')
          | Inr m \<Rightarrow> (Inr (Model m), st')))"

definition renew_token :: "'m collaborators \<Rightarrow> state \<Rightarrow> (exn + 'm result) \<times> state" where
  "renew_token env st =
    (case auth st of
       None \<Rightarrow> (Inl (AuthRequiredException ''Authentication is required.''), st)
     | Some a \<Rightarrow>
         if \<not> is_authenticated st
         then (Inl (AuthRequiredException ''Authentication is required.''), st)
         else (case new_query st ''mutation RenewToken'' ''RenewToken''
                      [(''authToken'', json_of_opt (authToken a)),
                       (''refreshToken'', json_of_opt (refreshToken a))] of
                 (q, st1) \<Rightarrow>
                   (case FrankEnergie_query (net env) st1 q None of
                      (Inl e, st2) \<Rightarrow> (Inl e, st2)
                    | (Inr response, st2) \<Rightarrow>
                        (case auth_from_dict env response of
                           Inl e \<Rightarrow> (Inl e, st2)
                         | Inr a' \<Rightarrow> (Inr (Credentials a'), st2\<lparr>auth := Some a'\<rparr>)))))"

definition meter_readings :: "'m collaborators \<Rightarrow> state \<Rightarrow> string \<Rightarrow> (exn + 'm result) \<times> state" where
  "meter_readings env st site_reference =
    (if auth st = None \<or> \<not> is_authenticated st
     then (Inl (AuthRequiredException ''Authentication is required.''), st)
     else (case new_query st ''query ActualAndExpectedMeterReadings''
                  ''ActualAndExpectedMeterReadings'' [(''siteReference'', JStr site_reference)] of
             (q, st1) \<Rightarrow> query_from_dict env st1 q EnergyConsumption))"

text \<open>\<open>month_summary\<close> turns every exception of its \<open>try\<close> block into an \<open>AuthException\<close>.\<close>

definition month_summary :: "'m collaborators \<Rightarrow> state \<Rightarrow> string \<Rightarrow> (exn + 'm result) \<times> state" where
  "month_summary env st site_reference =
    (if auth st = None \<or> \<not> is_authenticated st
     then (Inl (AuthRequiredException ''Authentication is required.''), st)
     else (case new_query st ''query MonthSummary'' ''MonthSummary''
                  [(''siteReference'', JStr site_reference)] of
             (q, st1) \<Rightarrow>
               (case query_from_dict env st1 q MonthSummary of
                  (Inl e, st2) \<Rightarrow>
                    (Inl (AuthException (''Failed to fetch month summary: '' @ str_exn e)), st2)
                | (Inr r, st2) \<Rightarrow> (Inr r, st2))))"

text \<open>
  The \<open>try\<close> block of \<open>enode_chargers\<close> after the query has returned; the
  \<open>response is None\<close> test never holds for what \<open>_query\<close> returns.
\<close>

definition enode_chargers_try :: "'m collaborators \<Rightarrow> json \<Rightarrow> exn + 'm result" where
  "enode_chargers_try env response =
    exn_bind (py_contains response ''data'') (\<lambda>has_data.
      if \<not> has_data then Inr EmptyDict
      else exn_bind (py_getitem response ''data'') (\<lambda>data.
        if data = JNull then Inr EmptyDict
        else exn_bind (py_contains data ''enodeChargers'') (\<lambda>has_chargers.
          if \<not> has_chargers then Inr EmptyDict
          else exn_bind (py_getitem data ''enodeChargers'') (\<lambda>chargers_data.
            exn_bind (py_len chargers_data) (\<lambda>n.
              exn_bind (from_dict env EnodeChargers chargers_data) (\<lambda>m. Inr (Model m)))))))"

definition enode_chargers ::
  "'m collaborators \<Rightarrow> state \<Rightarrow> string \<Rightarrow> date \<Rightarrow> (exn + 'm result) \<times> state" where
  "enode_chargers env st site_reference start_date =
    (if auth st = None \<or> \<not> is_authenticated st then (Inr EmptyDict, st)
     else (case new_query st ''query EnodeChargers'' ''EnodeChargers''
                  [(''siteReference'', JStr site_reference)] of
             (q, st1) \<Rightarrow>
               (case FrankEnergie_query (net env) st1 q None of
                  (Inl error, st2) \<Rightarrow> (Inr EmptyDict, st2)
                | (Inr response, st2) \<Rightarrow>
                    (case enode_chargers_try env response of
                       Inl error \<Rightarrow> (Inr EmptyDict, st2)
                     | Inr r \<Rightarrow> (Inr r, st2)))))"

definition invoices :: "'m collaborators \<Rightarrow> state \<Rightarrow> string \<Rightarrow> (exn + 'm result) \<times> state" where
  "invoices env st site_reference =
    (if auth st = None \<or> \<not> is_authenticated st
     then (Inl (AuthRequiredException ''Authentication is required.''), st)
     else (case new_query st ''query Invoices'' ''Invoices''
                  [(''siteReference'', JStr site_reference)] of
             (q, st1) \<Rightarrow> query_from_dict env st1 q Invoices))"

text \<open>\<open>raise AuthRequiredException\<close> raises the class without arguments: its text is empty.\<close>

definition me :: "'m collaborators \<Rightarrow> state \<Rightarrow> string option \<Rightarrow> (exn + 'm result) \<times> state" where
  "me env st site_reference =
    (if auth st = None then (Inl (AuthRequiredException []), st)
     else (case new_query st ''query Me'' ''Me''
                  [(''siteReference'', json_of_opt site_reference)] of
             (q, st1) \<Rightarrow> query_from_dict env st1 q Me))"

definition UserSites_op :: "'m collaborators \<Rightarrow> state \<Rightarrow> string option \<Rightarrow> (exn + 'm result) \<times> state" where
  "UserSites_op env st site_reference =
    (if auth st = None then (Inl (AuthRequiredException []), st)
     else (case new_query st ''query UserSites'' ''UserSites'' [] of
             (q, st1) \<Rightarrow> query_from_dict env st1 q UserSites))"

definition user_country :: "'m collaborators \<Rightarrow> state \<Rightarrow> (exn + 'm result) \<times> state" where
  "user_country env st =
    (if auth st = None then (Inl (AuthRequiredException []), st)
     else (case new_query st ''query UserCountry'' ''UserCountry'' [] of
             (q, st1) \<Rightarrow> query_from_dict env st1 q Me))"

definition user :: "'m collaborators \<Rightarrow> state \<Rightarrow> string option \<Rightarrow> (exn + 'm result) \<times> state" where
  "user env st site_reference =
    (if auth st = None then (Inl (AuthRequiredException []), st)
     else (case new_query st ''query Me'' ''Me''
                  [(''siteReference'', json_of_opt site_reference)] of
             (q, st1) \<Rightarrow> query_from_dict env st1 q User))"

text \<open>A date argument is a date or \<open>None\<close>; \<open>if not start_date\<close> holds for \<open>None\<close> only.\<close>

definition user_prices ::
  "'m collaborators \<Rightarrow> state \<Rightarrow> string \<Rightarrow> date option \<Rightarrow> date option \<Rightarrow> (exn + 'm result) \<times> state" where
  "user_prices env st site_reference start_date end_date =
    (if auth st = None then (Inl (AuthRequiredException []), st)
     else (let start_date = (case start_date of None \<Rightarrow> today env | Some d \<Rightarrow> d) in
           case new_query st ''query MarketPrices'' ''MarketPrices''
                  [(''date'', JStr (isoformat start_date)), (''siteReference'', JStr site_reference)] of
             (q, st1) \<Rightarrow> query_from_dict env st1 q MarketPrices_userprices))"

definition period_usage_and_costs ::
  "'m collaborators \<Rightarrow> state \<Rightarrow> string \<Rightarrow> string \<Rightarrow> (exn + 'm result) \<times> state" where
  "period_usage_and_costs env st site_reference start_date =
    (if site_reference = []
     then (Inl (ValueError (''De '' @ [CHR 0x27] @ ''site_reference'' @ [CHR 0x27] @ '' mag niet leeg zijn.'')), st)
     else if auth st = None
     then (Inl (AuthRequiredException ''Authenticatie is vereist om deze query uit te voeren.''), st)
     else (case new_query st ''query PeriodUsageAndCosts'' ''PeriodUsageAndCosts''
                  [(''siteReference'', JStr site_reference), (''date'', JStr start_date)] of
             (q, st1) \<Rightarrow>
               (case query_from_dict env st1 q PeriodUsageAndCosts of
                  (Inl err, st2) \<Rightarrow>
                    (Inl (AuthException ''Kon verbruik en kosten niet ophalen voor opgegeven periode.''), st2)
                | (Inr r, st2) \<Rightarrow> (Inr r, st2))))"

text \<open>
  The list comprehension \<open>[SmartBattery.from_dict(b) for b in batteries_data]\<close> stops
  at the first element whose constructor raises.
\<close>

fun from_dict_all :: "(json \<Rightarrow> exn + 'm) \<Rightarrow> json list \<Rightarrow> exn + 'm list" where
  "from_dict_all f [] = Inr []"
| "from_dict_all f (b # bs) =
    (case f b of
       Inl e \<Rightarrow> Inl e
     | Inr m \<Rightarrow> (case from_dict_all f bs of Inl e \<Rightarrow> Inl e | Inr ms \<Rightarrow> Inr (m # ms)))"

fun isinstance_KeyError_ValueError_TypeError :: "exn \<Rightarrow> bool" where
  "isinstance_KeyError_ValueError_TypeError (KeyError k) = True"
| "isinstance_KeyError_ValueError_TypeError (ValueError m) = True"
| "isinstance_KeyError_ValueError_TypeError (TypeError m) = True"
| "isinstance_KeyError_ValueError_TypeError _ = False"

text \<open>What \<open>smart_batteries\<close> does with the response that \<open>_query\<close> returned.\<close>

definition smart_batteries_response :: "'m collaborators \<Rightarrow> json \<Rightarrow> exn + 'm result" where
  "smart_batteries_response env response =
    (if \<not> truthy response then Inr (SmartBatteries [])
     else exn_bind (py_get response ''errors'') (\<lambda>errors.
       if truthy errors then Inr (SmartBatteries [])
       else exn_bind (py_get response ''data'') (\<lambda>data.
         if \<not> truthy data then Inr (SmartBatteries [])
         else exn_bind (py_get data ''smartBatteries'') (\<lambda>batteries_data.
           if \<not> truthy batteries_data then Inr (SmartBatteries [])
           else (case exn_bind (py_iter batteries_data) (from_dict_all (from_dict env SmartBattery)) of
                   Inl err \<Rightarrow>
                     if isinstance_KeyError_ValueError_TypeError err then Inr (SmartBatteries [])
                     else Inl err
                 | Inr smart_batteries \<Rightarrow> Inr (SmartBatteries smart_batteries))))))"

definition smart_batteries :: "'m collaborators \<Rightarrow> state \<Rightarrow> (exn + 'm result) \<times> state" where
  "smart_batteries env st =
    (if auth st = None then (Inl (AuthRequiredException []), st)
     else (case new_query st ''query SmartBatteries'' ''SmartBatteries'' [] of
             (q, st1) \<Rightarrow>
               (case FrankEnergie_query (net env) st1 q None of
                  (Inl e, st2) \<Rightarrow> (Inl e, st2)
                | (Inr response, st2) \<Rightarrow> (smart_batteries_response env response, st2))))"

text \<open>
  \<open>smart_battery_details\<close> after the query: \<open>response["data"]\<close> is read without a
  test, and the two membership tests are joined by a short-circuit \<open>or\<close>.
\<close>

definition smart_battery_details_response :: "'m collaborators \<Rightarrow> json \<Rightarrow> exn + 'm result" where
  "smart_battery_details_response env response =
    exn_bind (py_getitem response ''data'') (\<lambda>data.
      exn_bind (py_contains data ''smartBattery'') (\<lambda>has_battery.
        exn_bind (if \<not> has_battery then Inr False else py_contains data ''smartBatterySummary'')
          (\<lambda>complete.
            if \<not> complete
            then Inl (AuthException ''Incomplete response data for smart battery details'')
            else exn_bind (py_getitem data ''smartBattery'') (\<lambda>battery.
              exn_bind (py_getitem data ''smartBatterySummary'') (\<lambda>summary.
                exn_bind (from_dict env SmartBatteryDetails
                            (JObj [(''smartBattery'', battery), (''smartBatterySummary'', summary)]))
                  (\<lambda>m. Inr (Model m)))))))"

definition smart_battery_details ::
  "'m collaborators \<Rightarrow> state \<Rightarrow> string \<Rightarrow> (exn + 'm result) \<times> state" where
  "smart_battery_details env st device_id =
    (if auth st = None then (Inl (AuthRequiredException []), st)
     else if device_id = []
     then (Inl (ValueError ''Missing required device_id for smart_battery_sessions''), st)
     else (case new_query st ''query SmartBattery'' ''SmartBattery'' [(''deviceId'', JStr device_id)] of
             (q, st1) \<Rightarrow>
               (case FrankEnergie_query (net env) st1 q None of
                  (Inl e, st2) \<Rightarrow> (Inl e, st2)
                | (Inr response, st2) \<Rightarrow> (smart_battery_details_response env response, st2))))"

definition smart_battery_sessions ::
  "'m collaborators \<Rightarrow> state \<Rightarrow> string \<Rightarrow> date \<Rightarrow> date \<Rightarrow> (exn + 'm result) \<times> state" where
  "smart_battery_sessions env st device_id start_date end_date =
    (if auth st = None then (Inl (AuthRequiredException []), st)
     else if device_id = []
     then (Inl (ValueError ''Missing required device_id for smart_battery_sessions''), st)
     else (case new_query st ''query SmartBatterySessions'' ''SmartBatterySessions''
                  [(''deviceId'', JStr device_id),
                   (''startDate'', JStr (isoformat start_date)),
                   (''endDate'', JStr (isoformat end_date))] of
             (q, st1) \<Rightarrow> query_from_dict env st1 q SmartBatterySessions))"

text \<open>
  The operations that need credentials, with their arguments, and the call of one of
  them.
\<close>

datatype operation =
    RenewToken
  | MeterReadings string
  | MonthSummaryOp string
  | EnodeChargersOp string date
  | InvoicesOp string
  | MeOp "string option"
  | UserSitesOp "string option"
  | UserCountry
  | UserOp "string option"
  | UserPrices string "date option" "date option"
  | PeriodUsageAndCostsOp string string
  | SmartBatteriesOp
  | SmartBatteryDetailsOp string
  | SmartBatterySessionsOp string date date

fun call :: "'m collaborators \<Rightarrow> state \<Rightarrow> operation \<Rightarrow> (exn + 'm result) \<times> state" where
  "call env st RenewToken = renew_token env st"
| "call env st (MeterReadings site_reference) = meter_readings env st site_reference"
| "call env st (MonthSummaryOp site_reference) = month_summary env st site_reference"
| "call env st (EnodeChargersOp site_reference start_date) =
     enode_chargers env st site_reference start_date"
| "call env st (InvoicesOp site_reference) = invoices env st site_reference"
| "call env st (MeOp site_reference) = me env st site_reference"
| "call env st (UserSitesOp site_reference) = UserSites_op env st site_reference"
| "call env st UserCountry = user_country env st"
| "call env st (UserOp site_reference) = user env st site_reference"
| "call env st (UserPrices site_reference start_date end_date) =
     user_prices env st site_reference start_date end_date"
| "call env st (PeriodUsageAndCostsOp site_reference start_date) =
     period_usage_and_costs env st site_reference start_date"
| "call env st SmartBatteriesOp = smart_batteries env st"
| "call env st (SmartBatteryDetailsOp device_id) = smart_battery_details env st device_id"
| "call env st (SmartBatterySessionsOp device_id start_date end_date) =
     smart_battery_sessions env st device_id start_date end_date"

section \<open>Notions of the specification\<close>

text \<open>
  An error entry that is only logged: a mapping whose message is a string that none of
  the raising rows and neither prefix row of the classifier's table matches. The Dutch
  message about the missing base tariff and every unrecognised message are such.
  An entry of the market-prices row: its message starts with the market-prices prefix.
\<close>

definition logged_message :: "string \<Rightarrow> bool" where
  "logged_message m =
    (m \<noteq> ''user-error:password-invalid'' \<and> m \<noteq> ''user-error:auth-not-authorised''
     \<and> m \<noteq> ''user-error:auth-required'' \<and> m \<noteq> ''Graphql validation error''
     \<and> m \<noteq> ''user-error:smart-trading-not-enabled''
     \<and> m \<noteq> ''user-error:smart-charging-not-enabled''
     \<and> m \<noteq> ''request-error:request-not-supported-in-country''
     \<and> \<not> startswith m ''No marketprices found for segment''
     \<and> \<not> startswith m ''No connections found for user'')"

definition logged_only :: "json \<Rightarrow> bool" where
  "logged_only error =
    (case error of
       JObj kvs \<Rightarrow>
         (case map_of kvs ''message'' of Some (JStr m) \<Rightarrow> logged_message m | _ \<Rightarrow> False)
     | _ \<Rightarrow> False)"

definition marketprices_entry :: "json \<Rightarrow> bool" where
  "marketprices_entry error =
    (case error of
       JObj kvs \<Rightarrow>
         (case map_of kvs ''message'' of
            Some (JStr m) \<Rightarrow> startswith m ''No marketprices found for segment''
          | _ \<Rightarrow> False)
     | _ \<Rightarrow> False)"

text \<open>
  A world in which nothing has happened yet, and the request that \<open>_query\<close> hands to
  the transport for a client state, a query and extra headers.
\<close>

definition empty_world :: world where
  "empty_world = \<lparr>cells = (\<lambda>a. []), fresh = 0, sent = [], sessions_created = 0, sessions_closed = []\<rparr>"

definition request_of ::
  "state \<Rightarrow> FrankEnergieQuery \<Rightarrow> (string \<times> string) list option \<Rightarrow> request" where
  "request_of st q extra_headers =
    (compose_headers (auth st) extra_headers, json_payload (cells st) (to_dict q))"

text \<open>
  The access token of the client, if it has credentials and they hold one, and the
  entries of the optional extra headers.
\<close>

definition access_token :: "Authentication option \<Rightarrow> string option" where
  "access_token a = (case a of None \<Rightarrow> None | Some au \<Rightarrow> authToken au)"

definition extra_entries :: "(string \<times> string) list option \<Rightarrow> (string \<times> string) list" where
  "extra_entries extra_headers = (case extra_headers of None \<Rightarrow> [] | Some extra \<Rightarrow> extra)"

text \<open>
  A login query as \<open>login("u", "p")\<close> builds it, with its variables at address 0.
\<close>

definition login_heap :: heap where
  "login_heap = (\<lambda>a. [])(0 := [(''email'', JStr ''u''), (''password'', JStr ''p'')])"

definition login_query :: FrankEnergieQuery where
  "login_query = \<lparr>query = ''mutation Login'', operation_name = ''Login'', variables = 0\<rparr>"

text \<open>
  The operations whose first statement tests \<open>is_authenticated\<close>, and those whose
  test is \<open>self._auth is None\<close> (\<open>period_usage_and_costs\<close> reaches that test when its
  site reference is not empty). \<open>enode_chargers\<close> is in neither group.
\<close>

fun checks_authenticated :: "operation \<Rightarrow> bool" where
  "checks_authenticated RenewToken = True"
| "checks_authenticated (MeterReadings site_reference) = True"
| "checks_authenticated (MonthSummaryOp site_reference) = True"
| "checks_authenticated (InvoicesOp site_reference) = True"
| "checks_authenticated _ = False"

fun checks_credentials :: "operation \<Rightarrow> bool" where
  "checks_credentials (MeOp site_reference) = True"
| "checks_credentials (UserSitesOp site_reference) = True"
| "checks_credentials UserCountry = True"
| "checks_credentials (UserOp site_reference) = True"
| "checks_credentials (UserPrices site_reference start_date end_date) = True"
| "checks_credentials (PeriodUsageAndCostsOp site_reference start_date) = (site_reference \<noteq> [])"
| "checks_credentials SmartBatteriesOp = True"
| "checks_credentials (SmartBatteryDetailsOp device_id) = True"
| "checks_credentials (SmartBatterySessionsOp device_id start_date end_date) = True"
| "checks_credentials _ = False"

text \<open>
  Collaborators for examples: a transport that times out and constructors that
  reject everything.
\<close>

definition offline :: "unit collaborators" where
  "offline = \<lparr>net = (\<lambda>req. TransportRaises TimeoutError),
              from_dict = (\<lambda>cls j. Inl (ValueError [])),
              auth_from_dict = (\<lambda>j. Inl (ValueError [])),
              today = (2024, 1, 1)\<rparr>"

text \<open>
  A transport that answers every request with one outcome, beside given
  constructors; a client constructed with both tokens; and three response bodies.
\<close>

definition answering :: "http_outcome \<Rightarrow> (model_class \<Rightarrow> json \<Rightarrow> exn + unit) \<Rightarrow> unit collaborators" where
  "answering outcome dec = offline\<lparr>net := (\<lambda>req. outcome), from_dict := dec\<rparr>"

definition logged_in :: state where
  "logged_in = FrankEnergie_init empty_world None (Some ''A'') (Some ''R'')"

definition auth_required_body :: json where
  "auth_required_body = JObj [(''errors'', JArr [JObj [(''message'', JStr ''user-error:auth-required'')]])]"

definition devices_body :: json where
  "devices_body = JObj [(''data'', JObj [(''enodeChargers'', JArr [JObj []]), (''smartBatteries'', JArr [JObj []])])]"

definition unhandled_body :: json where
  "unhandled_body = JObj [(''errors'', JArr [JObj [(''message'', JStr ''something else'')]])]"


text \<open>
  A key of a mapping that is absent or whose value is falsy, which is when
  \<open>not mapping.get(key)\<close> holds; and two more response bodies.
\<close>

definition absent_or_falsy :: "(string \<times> json) list \<Rightarrow> string \<Rightarrow> bool" where
  "absent_or_falsy kvs k = (case map_of kvs k of None \<Rightarrow> True | Some v \<Rightarrow> \<not> truthy v)"

definition no_data_body :: json where
  "no_data_body = JObj [(''data'', JNull)]"

definition no_batteries_body :: json where
  "no_batteries_body = JObj [(''data'', JObj [(''smartBatteries'', JArr [])])]"

text \<open>
  A table of decimal digits is sound when, among the ASCII code points, it has
  exactly the digits \<open>0\<close> to \<open>9\<close> with their values, and every value it gives is at
  most nine. The table of the examples has the ASCII digits and the Arabic-Indic
  digits, U+0660 to U+0669.
\<close>

definition ascii_digit :: "codepoint \<Rightarrow> bool" where
  "ascii_digit c = (48 \<le> c \<and> c \<le> 57)"

definition unicode_db :: "(codepoint \<Rightarrow> nat option) \<Rightarrow> bool" where
  "unicode_db dec =
    ((\<forall>c. c < 128 \<longrightarrow> dec c = (if ascii_digit c then Some (c - 48) else None))
     \<and> (\<forall>c v. dec c = Some v \<longrightarrow> v \<le> 9))"

definition ascii_and_arabic_indic :: "codepoint \<Rightarrow> nat option" where
  "ascii_and_arabic_indic c =
    (if 48 \<le> c \<and> c \<le> 57 then Some (c - 48)
     else if 1632 \<le> c \<and> c \<le> 1641 then Some (c - 1632)
     else None)"

text \<open>
  The three shapes \<open>YYYY\<close>, \<open>YYYY-MM\<close> and \<open>YYYY-MM-DD\<close> written out, each letter a
  decimal digit; the date that a string of the third shape names, its digits read by
  value; what makes three numbers a calendar date; and a string of the third shape
  whose month and day are in ASCII digits, where the second digit of a day that
  begins with \<open>1\<close> or \<open>2\<close> may be any decimal digit.
\<close>

fun date_shape :: "(codepoint \<Rightarrow> nat option) \<Rightarrow> codepoint list \<Rightarrow> bool" where
  "date_shape dec [y1, y2, y3, y4] = list_all (is_digit dec) [y1, y2, y3, y4]"
| "date_shape dec [y1, y2, y3, y4, h1, m1, m2] =
    (list_all (is_digit dec) [y1, y2, y3, y4, m1, m2] \<and> h1 = of_char (CHR ''-''))"
| "date_shape dec [y1, y2, y3, y4, h1, m1, m2, h2, d1, d2] =
    (list_all (is_digit dec) [y1, y2, y3, y4, m1, m2, d1, d2]
     \<and> h1 = of_char (CHR ''-'') \<and> h2 = of_char (CHR ''-''))"
| "date_shape dec s = False"

definition date_of :: "(codepoint \<Rightarrow> nat option) \<Rightarrow> codepoint list \<Rightarrow> date" where
  "date_of dec s = (number dec (take 4 s), number dec (take 2 (drop 5 s)), number dec (drop 8 s))"

definition calendar_date :: "date \<Rightarrow> bool" where
  "calendar_date dt =
    (case dt of (y, m, d) \<Rightarrow> 1 \<le> y \<and> 1 \<le> m \<and> m \<le> 12 \<and> 1 \<le> d \<and> d \<le> days_in_month y m)"

fun ascii_month_day :: "codepoint list \<Rightarrow> bool" where
  "ascii_month_day [y1, y2, y3, y4, h1, m1, m2, h2, d1, d2] =
    (ascii_digit m1 \<and> ascii_digit m2 \<and> ascii_digit d1
     \<and> (ascii_digit d2 \<or> d1 = of_char (CHR ''1'') \<or> d1 = of_char (CHR ''2'')))"
| "ascii_month_day s = False"

section \<open>The Error Classifier\<close>

lemma startswith_append: "startswith (p @ s) p"
  by (simp add: startswith_def)

lemma startswith_iff: "startswith s p \<longleftrightarrow> (\<exists>x. s = p @ x)"
  unfolding startswith_def
  by (metis append_eq_conv_conj)

lemma handle_error_message_marketprices_append:
  "handle_error_message (''No marketprices found for segment'' @ x) = Return"
  using startswith_append [of "''No marketprices found for segment''" x]
  by (simp add: handle_error_message_def)

lemma handle_error_message_marketprices:
  "startswith m ''No marketprices found for segment'' \<Longrightarrow> handle_error_message m = Return"
  using handle_error_message_marketprices_append by (auto simp only: startswith_iff)

lemma handle_error_message_auth_required:
  "handle_error_message ''user-error:auth-required'' = Raise (AuthRequiredException ''Authentication required'')"
  by (simp add: handle_error_message_def)

lemma logged_message_Continue:
  assumes "logged_message m"
  shows "handle_error_message m = Continue"
proof -
  note a = assms [unfolded logged_message_def]
  show ?thesis
    unfolding handle_error_message_def
    using a by (simp only: if_False if_cancel)
qed

lemma entry_cases:
  obtains (obj) kvs m where "e = JObj kvs" "map_of kvs ''message'' = Some (JStr m)"
  | (nomsg) kvs where "e = JObj kvs" "map_of kvs ''message'' = None"
  | (nonstr) kvs v where "e = JObj kvs" "map_of kvs ''message'' = Some v" "\<forall>m. v \<noteq> JStr m"
  | (other) "\<forall>kvs. e \<noteq> JObj kvs"
proof (cases e)
  case (JObj kvs)
  show ?thesis
  proof (cases "map_of kvs ''message''")
    case None
    with JObj show ?thesis using nomsg by blast
  next
    case (Some v)
    show ?thesis
    proof (cases v)
      case (JStr m)
      with JObj Some show ?thesis using obj by blast
    qed (use JObj Some nonstr in blast)+
  qed
qed (use other in blast)+

lemma marketprices_entry_Return:
  assumes "marketprices_entry e"
  shows "handle_error_entry e = Return"
proof (cases e rule: entry_cases)
  case (obj kvs m)
  with assms have "startswith m ''No marketprices found for segment''"
    by (simp add: marketprices_entry_def)
  then show ?thesis
    using obj by (simp add: handle_error_entry_def handle_error_message_marketprices)
next
  case (nomsg kvs)
  with assms show ?thesis by (simp add: marketprices_entry_def)
next
  case (nonstr kvs v)
  with assms show ?thesis by (cases v) (simp_all add: marketprices_entry_def)
next
  case other
  with assms show ?thesis by (cases e) (simp_all add: marketprices_entry_def)
qed

lemma logged_only_Continue:
  assumes "logged_only e"
  shows "handle_error_entry e = Continue"
proof (cases e rule: entry_cases)
  case (obj kvs m)
  with assms have "logged_message m"
    by (simp add: logged_only_def)
  then show ?thesis
    using obj by (simp add: handle_error_entry_def logged_message_Continue)
next
  case (nomsg kvs)
  with assms show ?thesis by (simp add: logged_only_def)
next
  case (nonstr kvs v)
  with assms show ?thesis by (cases v) (simp_all add: logged_only_def)
next
  case other
  with assms show ?thesis by (cases e) (simp_all add: logged_only_def)
qed


lemma loop_skip:
  assumes "\<forall>e \<in> set pre. logged_only e"
  shows "handle_errors_loop (pre @ rest) = handle_errors_loop rest"
  using assms by (induction pre) (simp_all add: logged_only_Continue)

lemma handle_errors_nonempty_array:
  assumes "map_of kvs ''errors'' = Some (JArr (e # es))"
  shows "handle_errors (JObj kvs) = handle_errors_loop (e # es)"
proof -
  from assms have "kvs \<noteq> []" by auto
  with assms show ?thesis by (simp add: handle_errors_def)
qed

lemma handle_errors_reached:
  assumes errs: "map_of kvs ''errors'' = Some (JArr (pre @ e # post))"
      and pre: "\<forall>x \<in> set pre. logged_only x"
  shows "handle_errors (JObj kvs) = handle_errors_loop (e # post)"
proof -
  obtain a as where split: "pre @ e # post = a # as" by (cases pre) auto
  have "handle_errors (JObj kvs) = handle_errors_loop (pre @ e # post)"
    using errs handle_errors_nonempty_array [of kvs a as] by (simp add: split)
  also have "\<dots> = handle_errors_loop (e # post)"
    using pre by (rule loop_skip)
  finally show ?thesis .
qed

text \<open>
  Claim C4, as the code has it. The classifier takes the entries of the errors array in
  array order. Let the entries before \<open>e\<close> be only logged. Then \<open>e\<close> decides: if it
  raises, the classifier raises that exception at once; if it is a market-prices
  entry, the classifier returns at once without an exception, whatever follows; if it
  is only logged (the Dutch base-tariff message or an unrecognised one),
  classification goes on with the entries after it.
\<close>

theorem handle_errors_array_order:
  assumes errs: "map_of kvs ''errors'' = Some (JArr (pre @ e # post))"
      and pre: "\<forall>x \<in> set pre. logged_only x"
  shows "(handle_error_entry e = Raise x \<longrightarrow> handle_errors (JObj kvs) = Inl x)
       \<and> (marketprices_entry e \<longrightarrow> handle_errors (JObj kvs) = Inr ())
       \<and> (logged_only e \<longrightarrow> handle_errors (JObj kvs) = handle_errors_loop post)"
  unfolding handle_errors_reached [OF errs pre]
  by (simp add: marketprices_entry_Return logged_only_Continue)

lemma logged_only_Base:
  "logged_only (JObj [(''message'', JStr (CHR 0x27 # ''Base'' @ CHR 0x27 # '' niet aanwezig in prijzen verzameling''))])"
  by (simp add: logged_only_def logged_message_def startswith_def)

lemma logged_only_unknown:
  "logged_only (JObj [(''message'', JStr ''something else''), (''path'', JArr [])])"
  by (simp add: logged_only_def logged_message_def startswith_def)

lemma marketprices_entry_X:
  "marketprices_entry (JObj [(''message'', JStr ''No marketprices found for segment X'')])"
  by (simp add: marketprices_entry_def startswith_def)

lemma entry_auth_required:
  "handle_error_entry (JObj [(''message'', JStr ''user-error:auth-required'')]) = Raise (AuthRequiredException ''Authentication required'')"
  by (simp add: handle_error_entry_def handle_error_message_auth_required)

theorem handle_errors_array_order_witness:
  "handle_errors (JObj [(''errors'', JArr [
       JObj [(''message'', JStr (CHR 0x27 # ''Base'' @ CHR 0x27 # '' niet aanwezig in prijzen verzameling''))],
       JObj [(''message'', JStr ''user-error:auth-required'')],
       JObj [(''message'', JStr ''user-error:password-invalid'')]])])
     = Inl (AuthRequiredException ''Authentication required'')
   \<and> handle_errors (JObj [(''errors'', JArr [
       JObj [(''message'', JStr (CHR 0x27 # ''Base'' @ CHR 0x27 # '' niet aanwezig in prijzen verzameling''))],
       JObj [(''message'', JStr ''No marketprices found for segment X'')],
       JObj [(''message'', JStr ''user-error:password-invalid'')]])])
     = Inr ()
   \<and> handle_errors (JObj [(''errors'', JArr [
       JObj [(''message'', JStr (CHR 0x27 # ''Base'' @ CHR 0x27 # '' niet aanwezig in prijzen verzameling''))],
       JObj [(''message'', JStr ''something else''), (''path'', JArr [])],
       JObj [(''message'', JStr ''user-error:password-invalid'')]])])
     = Inl (AuthException ''Invalid password'')"
proof -
  let ?base = "JObj [(''message'', JStr (CHR 0x27 # ''Base'' @ CHR 0x27 # '' niet aanwezig in prijzen verzameling''))]"
  let ?last = "JObj [(''message'', JStr ''user-error:password-invalid'')]"
  have pre: "\<forall>x \<in> set [?base]. logged_only x"
    using logged_only_Base by simp
  have last: "handle_errors_loop [?last] = Inl (AuthException ''Invalid password'')"
    by (simp add: handle_error_entry_def handle_error_message_def)
  have errs: "map_of [(''errors'', JArr ([?base] @ e # [?last]))] ''errors'' = Some (JArr ([?base] @ e # [?last]))" for e
    by simp
  show ?thesis
    using handle_errors_array_order [OF errs pre, of "JObj [(''message'', JStr ''user-error:auth-required'')]" "AuthRequiredException ''Authentication required''"]
          handle_errors_array_order [OF errs pre, of "JObj [(''message'', JStr ''No marketprices found for segment X'')]"]
          handle_errors_array_order [OF errs pre, of "JObj [(''message'', JStr ''something else''), (''path'', JArr [])]"]
          entry_auth_required marketprices_entry_X logged_only_unknown last
    by simp
qed

text \<open>
  Claim C4 as stated fails for the market-prices message: an array with that entry
  first and an authentication-required entry second is accepted without an exception,
  although the second entry alone raises. The swallowed entry ends classification; it
  does not let it continue.
\<close>

theorem marketprices_entry_stops_classification:
  "handle_errors (JObj [(''errors'', JArr [
       JObj [(''message'', JStr ''No marketprices found for segment X'')],
       JObj [(''message'', JStr ''user-error:auth-required'')]])]) = Inr ()
   \<and> handle_errors (JObj [(''errors'', JArr [
       JObj [(''message'', JStr ''user-error:auth-required'')]])])
       = Inl (AuthRequiredException ''Authentication required'')"
  by (simp add: handle_errors_def handle_error_entry_def handle_error_message_def startswith_def)

text \<open>
  Claim C7. For an envelope whose errors array is one entry: when the entry's message
  is \<open>user-error:auth-required\<close> the classifier raises \<open>AuthRequiredException\<close>, and
  when the message starts with \<open>No marketprices found for segment\<close> it returns
  normally.
\<close>

theorem handle_errors_single_entry:
  assumes "map_of kvs ''errors'' = Some (JArr [JObj entry])"
  shows "(map_of entry ''message'' = Some (JStr ''user-error:auth-required'') \<longrightarrow>
           handle_errors (JObj kvs) = Inl (AuthRequiredException ''Authentication required''))
       \<and> (map_of entry ''message'' = Some (JStr m) \<and> startswith m ''No marketprices found for segment'' \<longrightarrow>
           handle_errors (JObj kvs) = Inr ())"
  unfolding handle_errors_nonempty_array [OF assms]
  by (simp add: handle_error_entry_def handle_error_message_marketprices handle_error_message_auth_required)

theorem handle_errors_single_entry_witness:
  "handle_errors (JObj [(''errors'', JArr [JObj [(''message'', JStr ''user-error:auth-required'')]])])
     = Inl (AuthRequiredException ''Authentication required'')
   \<and> handle_errors (JObj [(''data'', JNull), (''errors'', JArr [JObj [(''message'', JStr ''No marketprices found for segment X''), (''path'', JArr [JStr ''marketPrices''])]])])
     = Inr ()"
proof -
  have a: "map_of [(''errors'', JArr [JObj [(''message'', JStr ''user-error:auth-required'')]])] ''errors''
           = Some (JArr [JObj [(''message'', JStr ''user-error:auth-required'')]])"
    by simp
  have b: "map_of [(''data'', JNull), (''errors'', JArr [JObj [(''message'', JStr ''No marketprices found for segment X''), (''path'', JArr [JStr ''marketPrices''])]])] ''errors''
           = Some (JArr [JObj [(''message'', JStr ''No marketprices found for segment X''), (''path'', JArr [JStr ''marketPrices''])]])"
    by simp
  have c: "startswith ''No marketprices found for segment X'' ''No marketprices found for segment''"
    by (simp add: startswith_def)
  show ?thesis
    using handle_errors_single_entry [OF a] handle_errors_single_entry [OF b, of "''No marketprices found for segment X''"] c
    by simp
qed


section \<open>The Request Pipeline\<close>

lemma ensure_session_frame [simp]:
  "auth (FrankEnergie_ensure_session st) = auth st"
  "cells (FrankEnergie_ensure_session st) = cells st"
  "sent (FrankEnergie_ensure_session st) = sent st"
  by (simp_all add: FrankEnergie_ensure_session_def)

lemma fst_query:
  "fst (FrankEnergie_query network st q extra_headers) =
    (case query_try (network (request_of st q extra_headers)) of
       Inl e \<Rightarrow> Inl (query_except e) | Inr response \<Rightarrow> Inr response)"
  by (simp add: FrankEnergie_query_def request_of_def Let_def)

lemma sent_query:
  "sent (snd (FrankEnergie_query network st q extra_headers)) = sent st @ [request_of st q extra_headers]"
  by (simp add: FrankEnergie_query_def request_of_def Let_def)

text \<open>
  Claim C10. Let the response have a 2xx status and a parsed body whose errors array
  holds, after entries that are only logged, a mapping without a \<open>message\<close> key. The
  classifier's \<open>KeyError\<close> is caught by the first \<open>except\<close> clause of \<open>_query\<close>, and the
  pipeline raises \<open>NetworkError\<close>.
\<close>

theorem query_missing_message_is_NetworkError:
  assumes resp: "network (request_of st q extra_headers) = Response status detail (JObj kvs)"
      and ok: "200 \<le> status" "status < 300"
      and errs: "map_of kvs ''errors'' = Some (JArr (pre @ JObj entry # post))"
      and pre: "\<forall>x \<in> set pre. logged_only x"
      and nomsg: "map_of entry ''message'' = None"
  shows "fst (FrankEnergie_query network st q extra_headers)
         = Inl (NetworkError (''Request failed: '' @ [CHR 0x27] @ ''message'' @ [CHR 0x27]))"
proof -
  have "handle_errors (JObj kvs) = handle_errors_loop (JObj entry # post)"
    using errs pre by (rule handle_errors_reached)
  also have "\<dots> = Inl (KeyError ''message'')"
    using nomsg by (simp add: handle_error_entry_def)
  finally have cls: "handle_errors (JObj kvs) = Inl (KeyError ''message'')" .
  from errs have "kvs \<noteq> []" by auto
  with ok cls have "query_try (Response status detail (JObj kvs)) = Inl (KeyError ''message'')"
    by (simp add: query_try_def)
  then show ?thesis
    by (simp add: fst_query resp query_except_def)
qed

theorem query_missing_message_is_NetworkError_witness:
  "fst (FrankEnergie_query
         (\<lambda>req. Response 200 ''OK'' (JObj [(''errors'', JArr [JObj [(''message'', JStr ''something else'')], JObj [(''path'', JArr [])]])]))
         (FrankEnergie_init empty_world None (Some ''A'') (Some ''R''))
         \<lparr>query = ''query Me'', operation_name = ''Me'', variables = 0\<rparr> None)
   = Inl (NetworkError (''Request failed: '' @ [CHR 0x27] @ ''message'' @ [CHR 0x27]))"
proof -
  have pre: "\<forall>x \<in> set [JObj [(''message'', JStr ''something else'')]]. logged_only x"
    by (simp add: logged_only_def logged_message_def startswith_def)
  show ?thesis
    by (rule query_missing_message_is_NetworkError [where status = 200 and pre = "[JObj [(''message'', JStr ''something else'')]]" and post = "[]"
          and entry = "[(''path'', JArr [])]" and detail = "''OK''"
          and kvs = "[(''errors'', JArr [JObj [(''message'', JStr ''something else'')], JObj [(''path'', JArr [])]])]",
          OF _ _ _ _ pre])
       simp_all
qed

text \<open>
  Claim C1, what the code does: for every response whose status is 400 or above, so
  also for 400, 401, 403 and 500, \<open>_query\<close> raises \<open>NetworkError\<close>. The status error
  is a \<open>ClientError\<close>, and the clause for \<open>ClientError\<close> comes first; the clause that
  maps the statuses is never reached.
\<close>

theorem query_http_status_is_NetworkError:
  assumes resp: "network (request_of st q extra_headers) = Response status detail body"
      and status: "400 \<le> status"
  shows "fst (FrankEnergie_query network st q extra_headers) = Inl (NetworkError (''Request failed: '' @ detail))"
  using status by (simp add: fst_query resp query_try_def query_except_def)

theorem query_http_status_is_NetworkError_witness:
  "fst (FrankEnergie_query (\<lambda>req. Response 401 ''401, message=Unauthorized'' JNull)
         (FrankEnergie_init empty_world None (Some ''A'') (Some ''R''))
         \<lparr>query = ''query Me'', operation_name = ''Me'', variables = 0\<rparr> None)
   = Inl (NetworkError ''Request failed: 401, message=Unauthorized'')"
  using query_http_status_is_NetworkError [where status = 401 and detail = "''401, message=Unauthorized''"
      and network = "\<lambda>req. Response 401 ''401, message=Unauthorized'' JNull"]
  by simp

text \<open>
  An exception of the classifier that is no \<open>KeyError\<close> leaves \<open>_query\<close> as it is: for
  a 2xx response whose only error entry is \<open>user-error:auth-required\<close> the pipeline
  raises \<open>AuthRequiredException\<close> and returns no envelope.
\<close>

lemma query_auth_required_envelope:
  assumes "network (request_of st q extra_headers) = Response status detail (JObj kvs)"
      and "status < 400"
      and "map_of kvs ''errors'' = Some (JArr [JObj [(''message'', JStr ''user-error:auth-required'')]])"
  shows "fst (FrankEnergie_query network st q extra_headers)
         = Inl (AuthRequiredException ''Authentication required'')"
proof -
  have "handle_errors (JObj kvs) = Inl (AuthRequiredException ''Authentication required'')"
    using assms(3)
    by (simp add: handle_errors_nonempty_array handle_error_entry_def
          handle_error_message_auth_required)
  moreover from assms(3) have "kvs \<noteq> []" by auto
  ultimately show ?thesis
    using assms(1,2) by (simp add: fst_query query_try_def query_except_def)
qed

text \<open>A timeout and a connection failure raise \<open>NetworkError\<close>.\<close>

lemma query_transport_failure:
  "network (request_of st q extra_headers) = TransportRaises TimeoutError \<Longrightarrow>
   fst (FrankEnergie_query network st q extra_headers) = Inl (NetworkError ''Request failed: '')"
  "network (request_of st q extra_headers) = TransportRaises (ClientError m) \<Longrightarrow>
   fst (FrankEnergie_query network st q extra_headers) = Inl (NetworkError (''Request failed: '' @ m))"
  by (simp_all add: fst_query query_try_def query_except_def)


section \<open>Headers\<close>

lemma map_of_dict_set: "map_of (dict_set d k v) = (map_of d)(k \<mapsto> v)"
  by (induction d) (auto simp: fun_eq_iff)

lemma map_of_dict_update: "map_of (dict_update d e) = map_of d ++ map_of (rev e)"
  unfolding dict_update_def
proof (induction e arbitrary: d)
  case Nil
  show ?case by simp
next
  case (Cons kv e)
  have "map_of (dict_set d (fst kv) (snd kv)) ++ map_of (rev e)
        = map_of d ++ (map_of [kv] ++ map_of (rev e))"
    by (cases kv) (simp add: map_of_dict_set fun_eq_iff map_add_def split: option.splits)
  then show ?case
    by (simp add: Cons.IH)
qed

lemma map_of_rev_distinct: "distinct (map fst e) \<Longrightarrow> map_of (rev e) = map_of e"
proof (induction e)
  case Nil
  show ?case by simp
next
  case (Cons kv e)
  then have notin: "fst kv \<notin> fst ` set e" and IH: "map_of (rev e) = map_of e" by auto
  from notin have none: "map_of e (fst kv) = None" by (simp add: map_of_eq_None_iff)
  show ?case
    by (cases kv) (use none IH in \<open>auto simp: fun_eq_iff map_add_def split: option.splits\<close>)
qed

lemma base_headers:
  "map_of (case access_token a of None \<Rightarrow> [(''Content-Type'', ''application/json''), (''Accept'', ''application/json'')]
           | Some token \<Rightarrow> dict_set [(''Content-Type'', ''application/json''), (''Accept'', ''application/json'')] ''Authorization'' (''Bearer '' @ token)) name
   = (if name = ''Content-Type'' \<or> name = ''Accept'' then Some ''application/json''
      else if name = ''Authorization'' then map_option (\<lambda>t. ''Bearer '' @ t) (access_token a)
      else None)"
  by (cases "access_token a") auto

lemma compose_headers_alt:
  "compose_headers a extra_headers =
    dict_update (case access_token a of None \<Rightarrow> [(''Content-Type'', ''application/json''), (''Accept'', ''application/json'')]
           | Some token \<Rightarrow> dict_set [(''Content-Type'', ''application/json''), (''Accept'', ''application/json'')] ''Authorization'' (''Bearer '' @ token))
      (extra_entries extra_headers)"
  by (auto simp: compose_headers_def access_token_def extra_entries_def dict_update_def Let_def
           split: option.splits)

text \<open>
  Claim C8. The headers of a request, looked up by name. The entries of the extra
  headers are applied last: an entry of the extra headers is in the headers, whatever
  else has that name. For a name that the extra headers do not have, \<open>Content-Type\<close>
  and \<open>Accept\<close> are \<open>application/json\<close>, \<open>Authorization\<close> is \<open>Bearer\<close> and the access
  token when the client has one and absent when it has none, and no other header is
  present. The extra headers are a dictionary: no name occurs twice.
\<close>

theorem compose_headers_lookup:
  assumes "distinct (map fst (extra_entries extra_headers))"
  shows "map_of (compose_headers a extra_headers) name =
    (case map_of (extra_entries extra_headers) name of
       Some v \<Rightarrow> Some v
     | None \<Rightarrow>
         if name = ''Content-Type'' \<or> name = ''Accept'' then Some ''application/json''
         else if name = ''Authorization'' then map_option (\<lambda>t. ''Bearer '' @ t) (access_token a)
         else None)"
  unfolding compose_headers_alt map_of_dict_update map_of_rev_distinct [OF assms]
  by (simp only: map_add_def base_headers split: option.splits)

theorem compose_headers_lookup_witness:
  "map_of (compose_headers (Some \<lparr>authToken = Some ''A'', refreshToken = None\<rparr>) (Some [(''x-country'', ''BE'')])) ''Authorization'' = Some ''Bearer A''
 \<and> map_of (compose_headers (Some \<lparr>authToken = Some ''A'', refreshToken = None\<rparr>) (Some [(''x-country'', ''BE'')])) ''Content-Type'' = Some ''application/json''
 \<and> map_of (compose_headers (Some \<lparr>authToken = Some ''A'', refreshToken = None\<rparr>) (Some [(''x-country'', ''BE'')])) ''x-country'' = Some ''BE''
 \<and> map_of (compose_headers None None) ''Authorization'' = None"
proof -
  have d1: "distinct (map fst (extra_entries (Some [(''x-country'', ''BE'')])))"
    by (simp add: extra_entries_def)
  have d2: "distinct (map fst (extra_entries None))"
    by (simp add: extra_entries_def)
  show ?thesis
    using compose_headers_lookup [OF d1, of "Some \<lparr>authToken = Some ''A'', refreshToken = None\<rparr>" "''Authorization''"]
          compose_headers_lookup [OF d1, of "Some \<lparr>authToken = Some ''A'', refreshToken = None\<rparr>" "''Content-Type''"]
          compose_headers_lookup [OF d1, of "Some \<lparr>authToken = Some ''A'', refreshToken = None\<rparr>" "''x-country''"]
          compose_headers_lookup [OF d2, of None "''Authorization''"]
    by (simp add: extra_entries_def access_token_def)
qed

text \<open>Extra headers that name a fixed header replace it.\<close>

lemma extra_headers_override:
  "map_of (compose_headers None (Some [(''Content-Type'', ''text/plain'')])) ''Content-Type''
     = Some ''text/plain''
 \<and> map_of (compose_headers (Some \<lparr>authToken = Some ''A'', refreshToken = None\<rparr>)
       (Some [(''Authorization'', ''Basic x'')])) ''Authorization'' = Some ''Basic x''
 \<and> map_of (compose_headers None (Some [(''Authorization'', ''Bearer B'')])) ''Authorization''
     = Some ''Bearer B''"
  by (simp add: compose_headers_def dict_update_def)

section \<open>Redaction\<close>

text \<open>
  Claim C2, what the code does. For a query whose variables contain \<open>password\<close>, the
  dictionary that \<open>sanitize_query\<close> returns has the password masked; so have the
  query's own variables afterwards, since they are the same dictionary; and the
  payload that \<open>to_dict\<close> then gives the pipeline carries the mask in place of the
  password.
\<close>

theorem sanitize_query_masks_the_query:
  assumes "dict_contains (h (variables q)) ''password''"
  shows "map_of (snd (sanitize_query h q) (d_variables (fst (sanitize_query h q)))) ''password''
           = Some (JStr ''****'')
       \<and> map_of (snd (sanitize_query h q) (variables q)) ''password'' = Some (JStr ''****'')
       \<and> json_payload (snd (sanitize_query h q)) (to_dict q)
           = JObj [(''query'', JStr (query q)), (''operationName'', JStr (operation_name q)),
                   (''variables'', JObj (dict_set (h (variables q)) ''password'' (JStr ''****'')))]"
  using assms
  by (simp add: sanitize_query_def to_dict_def json_payload_def Let_def map_of_dict_set)

theorem sanitize_query_masks_the_query_witness:
  "json_payload login_heap (to_dict login_query)
     = JObj [(''query'', JStr ''mutation Login''), (''operationName'', JStr ''Login''),
             (''variables'', JObj [(''email'', JStr ''u''), (''password'', JStr ''p'')])]
 \<and> json_payload (snd (sanitize_query login_heap login_query)) (to_dict login_query)
     = JObj [(''query'', JStr ''mutation Login''), (''operationName'', JStr ''Login''),
             (''variables'', JObj [(''email'', JStr ''u''), (''password'', JStr ''****'')])]"
proof -
  have c: "dict_contains (login_heap (variables login_query)) ''password''"
    by (simp add: login_heap_def login_query_def dict_contains_def)
  show ?thesis
    using sanitize_query_masks_the_query [of login_heap login_query] c
    by (simp add: login_heap_def login_query_def json_payload_def to_dict_def)
qed

section \<open>Shutdown\<close>

text \<open>
  Claim C6, what the code does. A client constructed without a session creates one
  at first use and marks it as its own to close. Leaving the context manager then
  raises \<open>AttributeError\<close>, and the session is not among the closed ones.
\<close>

theorem aexit_leaves_owned_session_open:
  "session (FrankEnergie_ensure_session (FrankEnergie_init empty_world None None None)) = Some 0
 \<and> close_session (FrankEnergie_ensure_session (FrankEnergie_init empty_world None None None))
 \<and> fst (FrankEnergie_aexit (FrankEnergie_ensure_session (FrankEnergie_init empty_world None None None)))
     = Inl (AttributeError ''close'')
 \<and> sessions_closed (snd (FrankEnergie_aexit
       (FrankEnergie_ensure_session (FrankEnergie_init empty_world None None None)))) = []"
  by (simp add: FrankEnergie_aexit_def FrankEnergie_ensure_session_def FrankEnergie_init_def
                empty_world_def str_truthy_def)

section \<open>Calls without authentication\<close>

lemma checks_authenticated_raises:
  assumes "checks_authenticated op" "\<not> is_authenticated st"
  shows "call env st op = (Inl (AuthRequiredException ''Authentication is required.''), st)"
  using assms
  by (cases op)
     (auto simp: renew_token_def meter_readings_def month_summary_def invoices_def
           split: option.splits)

lemma checks_credentials_raises:
  assumes "checks_credentials op" "auth st = None"
  shows "\<exists>msg. call env st op = (Inl (AuthRequiredException msg), st)"
  using assms
  by (cases op)
     (simp_all add: me_def UserSites_op_def user_country_def user_def user_prices_def
        period_usage_and_costs_def smart_batteries_def smart_battery_details_def
        smart_battery_sessions_def)

lemma enode_chargers_skips:
  assumes "\<not> is_authenticated st"
  shows "call env st (EnodeChargersOp site_reference start_date) = (Inr EmptyDict, st)"
  using assms by (simp add: enode_chargers_def)

text \<open>
  Claim C3, as the code has it. An operation of the first group, called on a client
  that is not authenticated, raises \<open>AuthRequiredException\<close>; an operation of the
  second group, called on a client without credentials, raises it too; and
  \<open>enode_chargers\<close> on a client that is not authenticated returns the empty mapping.
  In each case the state is the one before the call: no request has been handed to
  the transport and no session has been created.
\<close>

theorem unauthenticated_calls:
  "(checks_authenticated op \<and> \<not> is_authenticated st \<longrightarrow>
      (\<exists>msg. call env st op = (Inl (AuthRequiredException msg), st)))
 \<and> (checks_credentials op \<and> auth st = None \<longrightarrow>
      (\<exists>msg. call env st op = (Inl (AuthRequiredException msg), st)))
 \<and> (\<not> is_authenticated st \<longrightarrow>
      call env st (EnodeChargersOp site_reference start_date) = (Inr EmptyDict, st))"
  using checks_authenticated_raises [of op st env] checks_credentials_raises [of op st env]
    enode_chargers_skips [of st env site_reference start_date]
  by blast

theorem unauthenticated_calls_witness:
  "call offline (FrankEnergie_init empty_world None None (Some ''R'')) (InvoicesOp ''S'')
     = (Inl (AuthRequiredException ''Authentication is required.''),
        FrankEnergie_init empty_world None None (Some ''R''))
 \<and> call offline (FrankEnergie_init empty_world None None None) (MeOp None)
     = (Inl (AuthRequiredException []), FrankEnergie_init empty_world None None None)
 \<and> call offline (FrankEnergie_init empty_world None None None) (EnodeChargersOp ''S'' (2024, 1, 1))
     = (Inr EmptyDict, FrankEnergie_init empty_world None None None)"
proof -
  have na: "\<not> is_authenticated (FrankEnergie_init empty_world None None (Some ''R''))"
    by (simp add: is_authenticated_def FrankEnergie_init_def str_truthy_def)
  have nc: "auth (FrankEnergie_init empty_world None None None) = None"
    by (simp add: FrankEnergie_init_def str_truthy_def)
  then have na': "\<not> is_authenticated (FrankEnergie_init empty_world None None None)"
    by (simp add: is_authenticated_def)
  have a: "checks_authenticated (InvoicesOp ''S'')" and c: "checks_credentials (MeOp None)"
    by simp_all
  show ?thesis
    using unauthenticated_calls [of "InvoicesOp ''S''" "FrankEnergie_init empty_world None None (Some ''R'')" offline]
      unauthenticated_calls [of "MeOp None" "FrankEnergie_init empty_world None None None" offline "''S''" "(2024, 1, 1)"]
      na nc na' a c
    by (auto simp: invoices_def me_def)
qed

text \<open>
  Claim C3 as stated fails twice. On a client without credentials \<open>enode_chargers\<close>
  returns the empty mapping and raises nothing. On a client that has credentials with
  a refresh token only, so that it is not authenticated, \<open>me\<close> hands a request to the
  transport.
\<close>

theorem unauthenticated_calls_that_do_not_raise:
  "\<not> is_authenticated (FrankEnergie_init empty_world None None None)
 \<and> fst (call offline (FrankEnergie_init empty_world None None None) (EnodeChargersOp ''S'' (2024, 1, 1)))
     = Inr EmptyDict
 \<and> \<not> is_authenticated (FrankEnergie_init empty_world None None (Some ''R''))
 \<and> length (sent (snd (call offline (FrankEnergie_init empty_world None None (Some ''R'')) (MeOp None)))) = 1
 \<and> fst (call offline (FrankEnergie_init empty_world None None (Some ''R'')) (MeOp None))
     = Inl (NetworkError ''Request failed: '')"
  by (simp add: is_authenticated_def FrankEnergie_init_def str_truthy_def enode_chargers_def
        me_def new_query_def query_from_dict_def FrankEnergie_query_def Let_def offline_def
        empty_world_def query_try_def query_except_def FrankEnergie_ensure_session_def)

section \<open>Operations tolerant of failure\<close>

lemma enode_chargers_never_raises:
  "\<exists>r. fst (enode_chargers env st site_reference start_date) = Inr r"
  by (auto simp: enode_chargers_def new_query_def split: prod.splits sum.splits)

lemma enode_chargers_pipeline_failure:
  assumes "net env = (\<lambda>req. outcome)" "is_authenticated st" "query_try outcome = Inl e"
  shows "fst (enode_chargers env st site_reference start_date) = Inr EmptyDict"
proof -
  from assms(2) have "auth st \<noteq> None" by (auto simp: is_authenticated_def split: option.splits)
  with assms show ?thesis
    by (simp add: enode_chargers_def new_query_def FrankEnergie_query_def Let_def assms(1))
qed

lemma enode_chargers_from_dict_failure:
  assumes "net env = (\<lambda>req. outcome)" "is_authenticated st"
    "query_try outcome = Inr (JObj kvs)" "map_of kvs ''data'' = Some (JObj dkvs)"
    "map_of dkvs ''enodeChargers'' = Some chargers_data"
    "from_dict env EnodeChargers chargers_data = Inl e"
  shows "fst (enode_chargers env st site_reference start_date) = Inr EmptyDict"
proof -
  from assms(2) have "auth st \<noteq> None" by (auto simp: is_authenticated_def split: option.splits)
  moreover have "enode_chargers_try env (JObj kvs) = Inl e \<or> (\<exists>e'. enode_chargers_try env (JObj kvs) = Inl e')"
    using assms(4-6)
    by (cases "py_len chargers_data") (simp_all add: enode_chargers_try_def exn_bind_def dict_contains_def)
  ultimately show ?thesis
    using assms(2,3)
    by (auto simp: enode_chargers_def new_query_def FrankEnergie_query_def Let_def assms(1))
qed

lemma smart_batteries_pipeline_failure:
  assumes "net env = (\<lambda>req. outcome)" "auth st \<noteq> None" "query_try outcome = Inl e"
  shows "fst (smart_batteries env st) = Inl (query_except e)"
  using assms(2,3)
  by (auto simp: smart_batteries_def new_query_def FrankEnergie_query_def Let_def assms(1))

lemma smart_batteries_logged_errors:
  assumes "net env = (\<lambda>req. outcome)" "auth st \<noteq> None"
    "query_try outcome = Inr (JObj kvs)" "map_of kvs ''errors'' = Some errors" "truthy errors"
  shows "fst (smart_batteries env st) = Inr (SmartBatteries [])"
  using assms(2-5)
  by (auto simp: smart_batteries_def new_query_def FrankEnergie_query_def Let_def assms(1)
        smart_batteries_response_def exn_bind_def)

lemma smart_batteries_from_dict_failure:
  assumes "net env = (\<lambda>req. outcome)" "auth st \<noteq> None"
    "query_try outcome = Inr (JObj kvs)" "map_of kvs ''errors'' = None"
    "map_of kvs ''data'' = Some (JObj dkvs)"
    "map_of dkvs ''smartBatteries'' = Some (JArr (b # bs))"
    "from_dict_all (from_dict env SmartBattery) (b # bs) = Inl err"
  shows "fst (smart_batteries env st) =
          (if isinstance_KeyError_ValueError_TypeError err then Inr (SmartBatteries []) else Inl err)"
proof -
  from assms(4) have "kvs \<noteq> []" using assms(5) by auto
  moreover from assms(6) have "dkvs \<noteq> []" by auto
  ultimately have "smart_batteries_response env (JObj kvs) =
       (if isinstance_KeyError_ValueError_TypeError err then Inr (SmartBatteries []) else Inl err)"
    using assms(4-7)
    by (simp add: smart_batteries_response_def exn_bind_def)
  then show ?thesis
    using assms(2,3)
    by (auto simp: smart_batteries_def new_query_def FrankEnergie_query_def Let_def assms(1))
qed

lemma py_get_absent_or_falsy:
  "absent_or_falsy kvs k \<Longrightarrow> \<exists>v. py_get (JObj kvs) k = Inr v \<and> \<not> truthy v"
  by (auto simp: absent_or_falsy_def split: option.splits)

lemma smart_batteries_after_query:
  assumes "net env = (\<lambda>req. outcome)" "auth st \<noteq> None" "query_try outcome = Inr response"
  shows "fst (smart_batteries env st) = smart_batteries_response env response"
  using assms(2,3)
  by (auto simp: smart_batteries_def new_query_def FrankEnergie_query_def Let_def assms(1))

lemma smart_batteries_response_empty: "\<not> truthy response \<Longrightarrow>
    smart_batteries_response env response = Inr (SmartBatteries [])"
  by (simp add: smart_batteries_response_def)

lemma smart_batteries_response_no_data:
  assumes "absent_or_falsy kvs ''errors''" "absent_or_falsy kvs ''data''"
  shows "smart_batteries_response env (JObj kvs) = Inr (SmartBatteries [])"
  using py_get_absent_or_falsy [OF assms(1)] py_get_absent_or_falsy [OF assms(2)]
  by (auto simp: smart_batteries_response_def exn_bind_def)

lemma smart_batteries_response_no_batteries:
  assumes "absent_or_falsy kvs ''errors''" "map_of kvs ''data'' = Some (JObj dkvs)"
    "absent_or_falsy dkvs ''smartBatteries''"
  shows "smart_batteries_response env (JObj kvs) = Inr (SmartBatteries [])"
  using py_get_absent_or_falsy [OF assms(1)] py_get_absent_or_falsy [OF assms(3)] assms(2)
  by (auto simp: smart_batteries_response_def exn_bind_def)

lemma smart_batteries_response_decoded:
  assumes "absent_or_falsy kvs ''errors''" "map_of kvs ''data'' = Some (JObj dkvs)"
    "map_of dkvs ''smartBatteries'' = Some (JArr (b # bs))"
  shows "smart_batteries_response env (JObj kvs) =
    (case from_dict_all (from_dict env SmartBattery) (b # bs) of
       Inl err \<Rightarrow> if isinstance_KeyError_ValueError_TypeError err then Inr (SmartBatteries []) else Inl err
     | Inr ms \<Rightarrow> Inr (SmartBatteries ms))"
proof -
  from assms(2) have "kvs \<noteq> []" by auto
  moreover from assms(3) have "dkvs \<noteq> []" by auto
  ultimately show ?thesis
    using py_get_absent_or_falsy [OF assms(1)] assms(2,3)
    by (auto simp: smart_batteries_response_def exn_bind_def split: sum.splits)
qed

lemma swallowed_exceptions:
  "isinstance_KeyError_ValueError_TypeError (KeyError k)"
  "isinstance_KeyError_ValueError_TypeError (ValueError m)"
  "isinstance_KeyError_ValueError_TypeError (TypeError m)"
  "(\<forall>k. e \<noteq> KeyError k) \<and> (\<forall>m. e \<noteq> ValueError m) \<and> (\<forall>m. e \<noteq> TypeError m) \<Longrightarrow>
     \<not> isinstance_KeyError_ValueError_TypeError e"
proof -
  show "isinstance_KeyError_ValueError_TypeError (KeyError k)"
    "isinstance_KeyError_ValueError_TypeError (ValueError m)"
    "isinstance_KeyError_ValueError_TypeError (TypeError m)"
    by simp_all
  show "\<not> isinstance_KeyError_ValueError_TypeError e"
    if "(\<forall>k. e \<noteq> KeyError k) \<and> (\<forall>m. e \<noteq> ValueError m) \<and> (\<forall>m. e \<noteq> TypeError m)"
    using that by (cases e) simp_all
qed


text \<open>
  Claim C5, as the code has it, for a transport that answers every request alike.
  \<open>enode_chargers\<close> never raises: when the pipeline or the classifier raises, and
  when the constructor of the chargers raises, it returns the empty mapping.
  \<open>smart_batteries\<close> raises what the pipeline or the classifier raises. It returns
  the empty \<open>SmartBatteries\<close> when the envelope that came back is empty, when it still
  has errors, when it has no data, when the data have no batteries, and when a
  battery's constructor raises \<open>KeyError\<close>, \<open>ValueError\<close> or \<open>TypeError\<close>; any other
  exception of the constructor is raised to the caller; and when every constructor
  succeeds the batteries are returned.
\<close>

theorem tolerant_operations:
  assumes "net env = (\<lambda>req. outcome)"
  shows "(\<exists>r. fst (enode_chargers env st site_reference start_date) = Inr r)
   \<and> (is_authenticated st \<and> query_try outcome = Inl e \<longrightarrow>
        fst (enode_chargers env st site_reference start_date) = Inr EmptyDict)
   \<and> (is_authenticated st \<and> query_try outcome = Inr (JObj kvs)
        \<and> map_of kvs ''data'' = Some (JObj dkvs)
        \<and> map_of dkvs ''enodeChargers'' = Some chargers_data
        \<and> from_dict env EnodeChargers chargers_data = Inl e \<longrightarrow>
        fst (enode_chargers env st site_reference start_date) = Inr EmptyDict)
   \<and> (auth st \<noteq> None \<and> query_try outcome = Inl e \<longrightarrow>
        fst (smart_batteries env st) = Inl (query_except e))
   \<and> (auth st \<noteq> None \<and> query_try outcome = Inr response \<and> \<not> truthy response \<longrightarrow>
        fst (smart_batteries env st) = Inr (SmartBatteries []))
   \<and> (auth st \<noteq> None \<and> query_try outcome = Inr (JObj kvs)
        \<and> map_of kvs ''errors'' = Some errors \<and> truthy errors \<longrightarrow>
        fst (smart_batteries env st) = Inr (SmartBatteries []))
   \<and> (auth st \<noteq> None \<and> query_try outcome = Inr (JObj kvs)
        \<and> absent_or_falsy kvs ''errors'' \<and> absent_or_falsy kvs ''data'' \<longrightarrow>
        fst (smart_batteries env st) = Inr (SmartBatteries []))
   \<and> (auth st \<noteq> None \<and> query_try outcome = Inr (JObj kvs)
        \<and> absent_or_falsy kvs ''errors'' \<and> map_of kvs ''data'' = Some (JObj dkvs)
        \<and> absent_or_falsy dkvs ''smartBatteries'' \<longrightarrow>
        fst (smart_batteries env st) = Inr (SmartBatteries []))
   \<and> (auth st \<noteq> None \<and> query_try outcome = Inr (JObj kvs)
        \<and> absent_or_falsy kvs ''errors'' \<and> map_of kvs ''data'' = Some (JObj dkvs)
        \<and> map_of dkvs ''smartBatteries'' = Some (JArr (b # bs))
        \<and> from_dict_all (from_dict env SmartBattery) (b # bs) = Inl e
        \<and> (e = KeyError k \<or> e = ValueError msg \<or> e = TypeError msg) \<longrightarrow>
        fst (smart_batteries env st) = Inr (SmartBatteries []))
   \<and> (auth st \<noteq> None \<and> query_try outcome = Inr (JObj kvs)
        \<and> absent_or_falsy kvs ''errors'' \<and> map_of kvs ''data'' = Some (JObj dkvs)
        \<and> map_of dkvs ''smartBatteries'' = Some (JArr (b # bs))
        \<and> from_dict_all (from_dict env SmartBattery) (b # bs) = Inl e
        \<and> (\<forall>k. e \<noteq> KeyError k) \<and> (\<forall>m. e \<noteq> ValueError m) \<and> (\<forall>m. e \<noteq> TypeError m) \<longrightarrow>
        fst (smart_batteries env st) = Inl e)
   \<and> (auth st \<noteq> None \<and> query_try outcome = Inr (JObj kvs)
        \<and> absent_or_falsy kvs ''errors'' \<and> map_of kvs ''data'' = Some (JObj dkvs)
        \<and> map_of dkvs ''smartBatteries'' = Some (JArr (b # bs))
        \<and> from_dict_all (from_dict env SmartBattery) (b # bs) = Inr ms \<longrightarrow>
        fst (smart_batteries env st) = Inr (SmartBatteries ms))"
proof -
  note after = smart_batteries_after_query [OF assms]
  have 1: "\<exists>r. fst (enode_chargers env st site_reference start_date) = Inr r"
    by (rule enode_chargers_never_raises)
  have 2: "fst (enode_chargers env st site_reference start_date) = Inr EmptyDict"
    if "is_authenticated st \<and> query_try outcome = Inl e"
    using that enode_chargers_pipeline_failure [OF assms, of st e] by simp
  have 3: "fst (enode_chargers env st site_reference start_date) = Inr EmptyDict"
    if "is_authenticated st \<and> query_try outcome = Inr (JObj kvs)
        \<and> map_of kvs ''data'' = Some (JObj dkvs)
        \<and> map_of dkvs ''enodeChargers'' = Some chargers_data
        \<and> from_dict env EnodeChargers chargers_data = Inl e"
    using that enode_chargers_from_dict_failure [OF assms, of st kvs dkvs chargers_data e] by simp
  have 4: "fst (smart_batteries env st) = Inl (query_except e)"
    if "auth st \<noteq> None \<and> query_try outcome = Inl e"
    using that smart_batteries_pipeline_failure [OF assms, of st e] by simp
  have 5: "fst (smart_batteries env st) = Inr (SmartBatteries [])"
    if "auth st \<noteq> None \<and> query_try outcome = Inr response \<and> \<not> truthy response"
    using that after [of st response] smart_batteries_response_empty [of response env] by simp
  have 6: "fst (smart_batteries env st) = Inr (SmartBatteries [])"
    if "auth st \<noteq> None \<and> query_try outcome = Inr (JObj kvs)
        \<and> map_of kvs ''errors'' = Some errors \<and> truthy errors"
    using that smart_batteries_logged_errors [OF assms, of st kvs errors] by simp
  have 7: "fst (smart_batteries env st) = Inr (SmartBatteries [])"
    if "auth st \<noteq> None \<and> query_try outcome = Inr (JObj kvs)
        \<and> absent_or_falsy kvs ''errors'' \<and> absent_or_falsy kvs ''data''"
    using that after [of st "JObj kvs"] smart_batteries_response_no_data [of kvs env] by simp
  have 8: "fst (smart_batteries env st) = Inr (SmartBatteries [])"
    if "auth st \<noteq> None \<and> query_try outcome = Inr (JObj kvs)
        \<and> absent_or_falsy kvs ''errors'' \<and> map_of kvs ''data'' = Some (JObj dkvs)
        \<and> absent_or_falsy dkvs ''smartBatteries''"
    using that after [of st "JObj kvs"] smart_batteries_response_no_batteries [of kvs dkvs env]
    by simp
  have dec: "fst (smart_batteries env st) =
      (case from_dict_all (from_dict env SmartBattery) (b # bs) of
         Inl err \<Rightarrow> if isinstance_KeyError_ValueError_TypeError err then Inr (SmartBatteries []) else Inl err
       | Inr ms \<Rightarrow> Inr (SmartBatteries ms))"
    if "auth st \<noteq> None \<and> query_try outcome = Inr (JObj kvs) \<and> absent_or_falsy kvs ''errors''
      \<and> map_of kvs ''data'' = Some (JObj dkvs) \<and> map_of dkvs ''smartBatteries'' = Some (JArr (b # bs))"
    using that after [of st "JObj kvs"] smart_batteries_response_decoded [of kvs dkvs b bs env]
    by simp
  have 9: "fst (smart_batteries env st) = Inr (SmartBatteries [])"
    if "auth st \<noteq> None \<and> query_try outcome = Inr (JObj kvs)
        \<and> absent_or_falsy kvs ''errors'' \<and> map_of kvs ''data'' = Some (JObj dkvs)
        \<and> map_of dkvs ''smartBatteries'' = Some (JArr (b # bs))
        \<and> from_dict_all (from_dict env SmartBattery) (b # bs) = Inl e
        \<and> (e = KeyError k \<or> e = ValueError msg \<or> e = TypeError msg)"
  proof -
    from that have "isinstance_KeyError_ValueError_TypeError e"
      using swallowed_exceptions(1-3) by blast
    with that dec show ?thesis by simp
  qed
  have 10: "fst (smart_batteries env st) = Inl e"
    if "auth st \<noteq> None \<and> query_try outcome = Inr (JObj kvs)
        \<and> absent_or_falsy kvs ''errors'' \<and> map_of kvs ''data'' = Some (JObj dkvs)
        \<and> map_of dkvs ''smartBatteries'' = Some (JArr (b # bs))
        \<and> from_dict_all (from_dict env SmartBattery) (b # bs) = Inl e
        \<and> (\<forall>k. e \<noteq> KeyError k) \<and> (\<forall>m. e \<noteq> ValueError m) \<and> (\<forall>m. e \<noteq> TypeError m)"
  proof -
    from that have "\<not> isinstance_KeyError_ValueError_TypeError e"
      by (intro swallowed_exceptions(4)) blast
    with that dec show ?thesis by simp
  qed
  have 11: "fst (smart_batteries env st) = Inr (SmartBatteries ms)"
    if "auth st \<noteq> None \<and> query_try outcome = Inr (JObj kvs)
        \<and> absent_or_falsy kvs ''errors'' \<and> map_of kvs ''data'' = Some (JObj dkvs)
        \<and> map_of dkvs ''smartBatteries'' = Some (JArr (b # bs))
        \<and> from_dict_all (from_dict env SmartBattery) (b # bs) = Inr ms"
    using that dec by simp
  show ?thesis
    apply (intro conjI impI)
    subgoal by (rule 1)
    subgoal by (rule 2)
    subgoal by (rule 3)
    subgoal by (rule 4)
    subgoal by (rule 5)
    subgoal by (rule 6)
    subgoal by (rule 7)
    subgoal by (rule 8)
    subgoal by (rule 9)
    subgoal by (rule 10)
    subgoal by (rule 11)
    done
qed


lemma logged_in_facts:
  "is_authenticated logged_in" "auth logged_in \<noteq> None"
  by (simp_all add: logged_in_def is_authenticated_def FrankEnergie_init_def str_truthy_def)

lemma answering_net: "net (answering outcome dec) = (\<lambda>req. outcome)"
  by (simp add: answering_def offline_def)

lemma example_outcomes:
  "query_try (Response 200 ''OK'' auth_required_body)
     = Inl (AuthRequiredException ''Authentication required'')"
  "query_try (Response 200 ''OK'' devices_body) = Inr devices_body"
  "query_try (Response 200 ''OK'' unhandled_body) = Inr unhandled_body"
  by (simp_all add: query_try_def auth_required_body_def devices_body_def unhandled_body_def
        handle_errors_def handle_error_entry_def handle_error_message_def startswith_def)

lemma more_example_outcomes:
  "query_try (Response 200 ''OK'' JNull) = Inr (JObj [])"
  "query_try (Response 200 ''OK'' no_data_body) = Inr no_data_body"
  "query_try (Response 200 ''OK'' no_batteries_body) = Inr no_batteries_body"
  by (simp_all add: query_try_def no_data_body_def no_batteries_body_def handle_errors_def)

theorem tolerant_operations_witness:
  "fst (enode_chargers (answering (Response 200 ''OK'' auth_required_body) (\<lambda>cls j. Inl (ValueError [])))
         logged_in ''S'' (2024, 1, 1)) = Inr EmptyDict
 \<and> fst (smart_batteries (answering (Response 200 ''OK'' auth_required_body) (\<lambda>cls j. Inl (ValueError [])))
         logged_in) = Inl (AuthRequiredException ''Authentication required'')
 \<and> fst (enode_chargers (answering (Response 200 ''OK'' devices_body) (\<lambda>cls j. Inl (ValueError [])))
         logged_in ''S'' (2024, 1, 1)) = Inr EmptyDict
 \<and> fst (smart_batteries (answering (Response 200 ''OK'' devices_body) (\<lambda>cls j. Inl (ValueError [])))
         logged_in) = Inr (SmartBatteries [])
 \<and> fst (smart_batteries (answering (Response 200 ''OK'' devices_body) (\<lambda>cls j. Inl (AttributeError ''get'')))
         logged_in) = Inl (AttributeError ''get'')
 \<and> fst (smart_batteries (answering (Response 200 ''OK'' devices_body) (\<lambda>cls j. Inr ()))
         logged_in) = Inr (SmartBatteries [()])
 \<and> fst (smart_batteries (answering (Response 200 ''OK'' unhandled_body) (\<lambda>cls j. Inl (ValueError [])))
         logged_in) = Inr (SmartBatteries [])
 \<and> fst (smart_batteries (answering (Response 200 ''OK'' JNull) (\<lambda>cls j. Inl (ValueError [])))
         logged_in) = Inr (SmartBatteries [])
 \<and> fst (smart_batteries (answering (Response 200 ''OK'' no_data_body) (\<lambda>cls j. Inl (ValueError [])))
         logged_in) = Inr (SmartBatteries [])
 \<and> fst (smart_batteries (answering (Response 200 ''OK'' no_batteries_body) (\<lambda>cls j. Inl (ValueError [])))
         logged_in) = Inr (SmartBatteries [])"
proof -
  let ?dec = "\<lambda>cls j. Inl (ValueError []) :: exn + unit"
  let ?attr = "\<lambda>cls j. Inl (AttributeError ''get'') :: exn + unit"
  let ?ok = "\<lambda>cls j. Inr () :: exn + unit"
  let ?kvs = "[(''data'', JObj [(''enodeChargers'', JArr [JObj []]), (''smartBatteries'', JArr [JObj []])])]"
  let ?dkvs = "[(''enodeChargers'', JArr [JObj []]), (''smartBatteries'', JArr [JObj []])]"
  note t1 = tolerant_operations [where env = "answering (Response 200 ''OK'' auth_required_body) ?dec"
      and outcome = "Response 200 ''OK'' auth_required_body" and st = logged_in
      and site_reference = "''S''" and start_date = "(2024, 1, 1)"
      and e = "AuthRequiredException ''Authentication required''", OF answering_net]
  note t2 = tolerant_operations [where env = "answering (Response 200 ''OK'' devices_body) ?dec"
      and outcome = "Response 200 ''OK'' devices_body" and st = logged_in
      and site_reference = "''S''" and start_date = "(2024, 1, 1)" and e = "ValueError []"
      and msg = "[]" and kvs = ?kvs and dkvs = ?dkvs
      and chargers_data = "JArr [JObj []]" and b = "JObj []" and bs = "[]", OF answering_net]
  note t3 = tolerant_operations [where env = "answering (Response 200 ''OK'' devices_body) ?attr"
      and outcome = "Response 200 ''OK'' devices_body" and st = logged_in
      and e = "AttributeError ''get''" and kvs = ?kvs and dkvs = ?dkvs
      and b = "JObj []" and bs = "[]", OF answering_net]
  note t4 = tolerant_operations [where env = "answering (Response 200 ''OK'' devices_body) ?ok"
      and outcome = "Response 200 ''OK'' devices_body" and st = logged_in
      and kvs = ?kvs and dkvs = ?dkvs and b = "JObj []" and bs = "[]" and ms = "[()]",
      OF answering_net]
  note t5 = tolerant_operations [where env = "answering (Response 200 ''OK'' unhandled_body) ?dec"
      and outcome = "Response 200 ''OK'' unhandled_body" and st = logged_in
      and kvs = "[(''errors'', JArr [JObj [(''message'', JStr ''something else'')]])]"
      and errors = "JArr [JObj [(''message'', JStr ''something else'')]]", OF answering_net]
  note t6 = tolerant_operations [where env = "answering (Response 200 ''OK'' JNull) ?dec"
      and outcome = "Response 200 ''OK'' JNull" and st = logged_in and response = "JObj []",
      OF answering_net]
  note t7 = tolerant_operations [where env = "answering (Response 200 ''OK'' no_data_body) ?dec"
      and outcome = "Response 200 ''OK'' no_data_body" and st = logged_in
      and kvs = "[(''data'', JNull)]", OF answering_net]
  note t8 = tolerant_operations [where env = "answering (Response 200 ''OK'' no_batteries_body) ?dec"
      and outcome = "Response 200 ''OK'' no_batteries_body" and st = logged_in
      and kvs = "[(''data'', JObj [(''smartBatteries'', JArr [])])]"
      and dkvs = "[(''smartBatteries'', JArr [])]", OF answering_net]
  have a: "fst (enode_chargers (answering (Response 200 ''OK'' auth_required_body) ?dec) logged_in ''S'' (2024, 1, 1)) = Inr EmptyDict"
    and b: "fst (smart_batteries (answering (Response 200 ''OK'' auth_required_body) ?dec) logged_in) = Inl (AuthRequiredException ''Authentication required'')"
    using t1 logged_in_facts example_outcomes(1) by (simp_all add: query_except_def)
  have c: "fst (enode_chargers (answering (Response 200 ''OK'' devices_body) ?dec) logged_in ''S'' (2024, 1, 1)) = Inr EmptyDict"
    and d: "fst (smart_batteries (answering (Response 200 ''OK'' devices_body) ?dec) logged_in) = Inr (SmartBatteries [])"
    using t2 logged_in_facts example_outcomes(2)
    by (simp_all add: devices_body_def answering_def offline_def absent_or_falsy_def)
  have e: "fst (smart_batteries (answering (Response 200 ''OK'' devices_body) ?attr) logged_in) = Inl (AttributeError ''get'')"
    using t3 logged_in_facts example_outcomes(2)
    by (simp add: devices_body_def answering_def offline_def absent_or_falsy_def)
  have f: "fst (smart_batteries (answering (Response 200 ''OK'' devices_body) ?ok) logged_in) = Inr (SmartBatteries [()])"
    using t4 logged_in_facts example_outcomes(2)
    by (simp add: devices_body_def answering_def offline_def absent_or_falsy_def)
  have g: "fst (smart_batteries (answering (Response 200 ''OK'' unhandled_body) ?dec) logged_in) = Inr (SmartBatteries [])"
    using t5 logged_in_facts example_outcomes(3)
    by (simp add: unhandled_body_def)
  have h: "fst (smart_batteries (answering (Response 200 ''OK'' JNull) ?dec) logged_in) = Inr (SmartBatteries [])"
    using t6 logged_in_facts more_example_outcomes(1) by simp
  have i: "fst (smart_batteries (answering (Response 200 ''OK'' no_data_body) ?dec) logged_in) = Inr (SmartBatteries [])"
    using t7 logged_in_facts more_example_outcomes(2)
    by (simp add: no_data_body_def absent_or_falsy_def)
  have j: "fst (smart_batteries (answering (Response 200 ''OK'' no_batteries_body) ?dec) logged_in) = Inr (SmartBatteries [])"
    using t8 logged_in_facts more_example_outcomes(3)
    by (simp add: no_batteries_body_def absent_or_falsy_def)
  from a b c d e f g h i j show ?thesis by (intro conjI)
qed

text \<open>
  Claim C5 as stated fails for \<open>smart_batteries\<close>: an authentication-required error
  of the classifier reaches the caller, and so does an \<open>AttributeError\<close> of a
  battery's constructor.
\<close>

theorem smart_batteries_propagates:
  "fst (smart_batteries (answering (Response 200 ''OK'' auth_required_body) (\<lambda>cls j. Inl (ValueError [])))
         logged_in) = Inl (AuthRequiredException ''Authentication required'')
 \<and> fst (smart_batteries (answering (Response 200 ''OK'' devices_body) (\<lambda>cls j. Inl (AttributeError ''get'')))
         logged_in) = Inl (AttributeError ''get'')"
proof -
  have "fst (smart_batteries (answering (Response 200 ''OK'' auth_required_body) (\<lambda>cls j. Inl (ValueError [])))
         logged_in) = Inl (query_except (AuthRequiredException ''Authentication required''))"
    using logged_in_facts(2) example_outcomes(1)
    by (rule smart_batteries_pipeline_failure [OF answering_net])
  moreover have "fst (smart_batteries (answering (Response 200 ''OK'' devices_body) (\<lambda>cls j. Inl (AttributeError ''get'')))
         logged_in) = (if isinstance_KeyError_ValueError_TypeError (AttributeError ''get'')
                       then Inr (SmartBatteries []) else Inl (AttributeError ''get''))"
  proof (rule smart_batteries_from_dict_failure [OF answering_net, where b = "JObj []" and bs = "[]"
          and kvs = "[(''data'', JObj [(''enodeChargers'', JArr [JObj []]), (''smartBatteries'', JArr [JObj []])])]"
          and dkvs = "[(''enodeChargers'', JArr [JObj []]), (''smartBatteries'', JArr [JObj []])]"])
    show "auth logged_in \<noteq> None" by (rule logged_in_facts(2))
    show "query_try (Response 200 ''OK'' devices_body) =
      Inr (JObj [(''data'', JObj [(''enodeChargers'', JArr [JObj []]), (''smartBatteries'', JArr [JObj []])])])"
      using example_outcomes(2) by (simp add: devices_body_def)
  qed (simp_all add: answering_def offline_def)
  ultimately show ?thesis by (simp add: query_except_def)
qed

section \<open>Date validation\<close>

text \<open>The equations of \<open>rests\<close> on an argument, with the three repetitions of the pattern unfolded.\<close>

lemma rests_applied:
  "rests dec Digit [] = []"
  "rests dec Digit (c # cs) = (if is_digit dec c then [cs] else [])"
  "rests dec (Lit a) [] = []"
  "rests dec (Lit a) (c # cs) = (if c = a then [cs] else [])"
  "rests dec (Seq r1 r2) s = concat (map (rests dec r2) (rests dec r1 s))"
  "rests dec (Repeat 4 4 r) s =
     concat (map (rests dec r) (concat (map (rests dec r) (concat (map (rests dec r) (rests dec r s))))))"
  "rests dec (Repeat 2 2 r) s = concat (map (rests dec r) (rests dec r s))"
  "rests dec (Repeat 0 2 r) s = s # rests dec r s @ concat (map (rests dec r) (rests dec r s))"
  by (simp_all add: eval_nat_numeral upt_rec)

lemma fullmatch_date_shape: "fullmatch dec start_date_pattern s = date_shape dec s"
  by (cases "(dec, s)" rule: date_shape.cases)
     (auto simp del: rests.simps simp add: fullmatch_def start_date_pattern_def rests_applied)

lemma dec_ascii:
  assumes "unicode_db dec"
  shows "dec 48 = Some 0" "dec 49 = Some 1" "dec 50 = Some 2" "dec 51 = Some 3" "dec 52 = Some 4"
    "dec 53 = Some 5" "dec 54 = Some 6" "dec 55 = Some 7" "dec 56 = Some 8" "dec 57 = Some 9"
    "dec 45 = None" "dec 32 = None"
  using assms by (simp_all add: unicode_db_def ascii_digit_def)

lemma ascii_digitE:
  assumes "ascii_digit c"
  obtains "c = 48" | "c = 49" | "c = 50" | "c = 51" | "c = 52"
    | "c = 53" | "c = 54" | "c = 55" | "c = 56" | "c = 57"
proof -
  from assms have "c = 48 \<or> c = 49 \<or> c = 50 \<or> c = 51 \<or> c = 52
      \<or> c = 53 \<or> c = 54 \<or> c = 55 \<or> c = 56 \<or> c = 57"
    unfolding ascii_digit_def by arith
  with that show ?thesis by blast
qed

lemma is_digitE:
  assumes "unicode_db dec" "is_digit dec c"
  obtains (ascii) "ascii_digit c" | (other) v where "128 \<le> c" "dec c = Some v" "v \<le> 9"
proof (cases "c < 128")
  case True
  with assms have "ascii_digit c"
    by (auto simp: unicode_db_def is_digit_def split: if_splits)
  then show ?thesis by (rule ascii)
next
  case False
  from assms(2) obtain v where v: "dec c = Some v" by (auto simp: is_digit_def)
  with assms(1) have "v \<le> 9" by (auto simp: unicode_db_def)
  with False v show ?thesis by (intro other) simp_all
qed

lemma digit_val_le: "unicode_db dec \<Longrightarrow> digit_val dec c \<le> 9"
  by (auto simp: digit_val_def unicode_db_def split: option.splits)


lemma month_alts_two_digits:
  assumes db: "unicode_db dec" and e: "is_digit dec e" and f: "is_digit dec f"
  shows "concat (map (\<lambda>(m, r3). concat (map (F m) (dash r3))) (month_alts dec (e # f # 45 # r)))
    = (if ascii_digit e \<and> ascii_digit f \<and> 1 \<le> number dec [e, f] \<and> number dec [e, f] \<le> 12
       then F (number dec [e, f]) r else [])"
proof -
  note defs = month_alts_def two_chars_def one_char_def dash_def number_def digit_val_def
    codepoints_def ascii_digit_def dec_ascii [OF db]
  from db e show ?thesis
  proof (cases rule: is_digitE)
    case ascii
    from db f show ?thesis
    proof (cases rule: is_digitE)
      case ascii
      with \<open>ascii_digit e\<close> show ?thesis by (elim ascii_digitE) (simp_all add: defs)
    next
      case (other v)
      with \<open>ascii_digit e\<close> show ?thesis by (elim ascii_digitE) (simp_all add: defs)
    qed
  next
    case (other v)
    then show ?thesis by (simp add: defs)
  qed
qed

lemma day_alts_two_digits:
  assumes db: "unicode_db dec" and g: "is_digit dec g" and j: "is_digit dec j"
  shows "day_alts dec [g, j] =
    (if ascii_digit g \<and> (ascii_digit j \<or> g = 49 \<or> g = 50)
        \<and> 1 \<le> number dec [g, j] \<and> number dec [g, j] \<le> 31
     then [(number dec [g, j], [])] else [])
    @ (if ascii_digit g \<and> g \<noteq> 48 then [(number dec [g], [j])] else [])"
proof -
  note defs = day_alts_def two_chars_def one_char_def one_or_two_then_digit_def number_def
    digit_val_def codepoints_def ascii_digit_def is_digit_def dec_ascii [OF db]
  from db g show ?thesis
  proof (cases rule: is_digitE)
    case ascii
    from db j show ?thesis
    proof (cases rule: is_digitE)
      case ascii
      with \<open>ascii_digit g\<close> show ?thesis by (elim ascii_digitE) (simp_all add: defs)
    next
      case (other v)
      with \<open>ascii_digit g\<close> show ?thesis by (elim ascii_digitE) (simp_all add: defs)
    qed
  next
    case (other v)
    then show ?thesis by (simp add: defs)
  qed
qed


lemma dash_Cons: "dash (45 # r) = [r]"
  by (simp add: dash_def)

lemma year_alts_four_digits:
  assumes "list_all (is_digit dec) [a, b, c, d]"
  shows "year_alts dec (a # b # c # d # r) = [(number dec [a, b, c, d], r)]"
  using assms by (simp add: year_alts_def)

lemma number_four_digits:
  assumes "unicode_db dec"
  shows "number dec [a, b, c, d] \<le> 9999"
  using digit_val_le [OF assms, of a] digit_val_le [OF assms, of b]
    digit_val_le [OF assms, of c] digit_val_le [OF assms, of d]
  by (simp add: number_def)

lemma days_in_month_le: "days_in_month y m \<le> 31"
  by (simp add: days_in_month_def)

lemma strptime_matches_full_date:
  assumes db: "unicode_db dec"
      and dig: "list_all (is_digit dec) [y1, y2, y3, y4, m1, m2, d1, d2]"
  shows "strptime_matches dec [y1, y2, y3, y4, 45, m1, m2, 45, d1, d2] =
    (if ascii_digit m1 \<and> ascii_digit m2 \<and> 1 \<le> number dec [m1, m2] \<and> number dec [m1, m2] \<le> 12
     then map (\<lambda>(d, r). (number dec [y1, y2, y3, y4], number dec [m1, m2], d, r))
            (day_alts dec [d1, d2])
     else [])"
proof -
  have y: "year_alts dec [y1, y2, y3, y4, 45, m1, m2, 45, d1, d2]
            = [(number dec [y1, y2, y3, y4], [45, m1, m2, 45, d1, d2])]"
    using dig by (intro year_alts_four_digits) simp
  have m: "is_digit dec m1" "is_digit dec m2" using dig by simp_all
  show ?thesis
    unfolding strptime_matches_def y
    by (simp add: dash_Cons month_alts_two_digits [OF db m])
qed

lemma ascii_month_day_ten:
  "ascii_month_day [y1, y2, y3, y4, h1, m1, m2, h2, d1, d2] =
    (ascii_digit m1 \<and> ascii_digit m2 \<and> ascii_digit d1 \<and> (ascii_digit d2 \<or> d1 = 49 \<or> d1 = 50))"
  by simp

lemma strptime_full_date:
  assumes db: "unicode_db dec"
      and dig: "list_all (is_digit dec) [y1, y2, y3, y4, m1, m2, d1, d2]"
  shows "ascii_month_day [y1, y2, y3, y4, 45, m1, m2, 45, d1, d2]
      \<and> calendar_date (number dec [y1, y2, y3, y4], number dec [m1, m2], number dec [d1, d2]) \<Longrightarrow>
      strptime_Ymd dec [y1, y2, y3, y4, 45, m1, m2, 45, d1, d2]
        = Inr (number dec [y1, y2, y3, y4], number dec [m1, m2], number dec [d1, d2])"
    and "\<not> (ascii_month_day [y1, y2, y3, y4, 45, m1, m2, 45, d1, d2]
      \<and> calendar_date (number dec [y1, y2, y3, y4], number dec [m1, m2], number dec [d1, d2])) \<Longrightarrow>
      \<exists>msg. strptime_Ymd dec [y1, y2, y3, y4, 45, m1, m2, 45, d1, d2] = Inl (ValueError msg)"
proof -
  have d: "is_digit dec d1" "is_digit dec d2" using dig by simp_all
  note y = number_four_digits [OF db, of y1 y2 y3 y4]
  note dim = days_in_month_le [of "number dec [y1, y2, y3, y4]" "number dec [m1, m2]"]
  show "strptime_Ymd dec [y1, y2, y3, y4, 45, m1, m2, 45, d1, d2]
        = Inr (number dec [y1, y2, y3, y4], number dec [m1, m2], number dec [d1, d2])"
    if "ascii_month_day [y1, y2, y3, y4, 45, m1, m2, 45, d1, d2]
      \<and> calendar_date (number dec [y1, y2, y3, y4], number dec [m1, m2], number dec [d1, d2])"
    using that y dim
    by (auto simp: strptime_Ymd_def strptime_matches_full_date [OF db dig]
          day_alts_two_digits [OF db d] calendar_date_def make_date_def ascii_month_day_ten)
  show "\<exists>msg. strptime_Ymd dec [y1, y2, y3, y4, 45, m1, m2, 45, d1, d2] = Inl (ValueError msg)"
    if "\<not> (ascii_month_day [y1, y2, y3, y4, 45, m1, m2, 45, d1, d2]
      \<and> calendar_date (number dec [y1, y2, y3, y4], number dec [m1, m2], number dec [d1, d2]))"
    using that y dim
    by (auto simp: strptime_Ymd_def strptime_matches_full_date [OF db dig]
          day_alts_two_digits [OF db d] calendar_date_def make_date_def ascii_month_day_ten)
qed

lemma date_shape_ten:
  assumes "date_shape dec s" "length s = 10"
  obtains y1 y2 y3 y4 m1 m2 d1 d2 where
    "s = [y1, y2, y3, y4, 45, m1, m2, 45, d1, d2]"
    "list_all (is_digit dec) [y1, y2, y3, y4, m1, m2, d1, d2]"
  using assms by (cases "(dec, s)" rule: date_shape.cases) auto

lemma validate_no_match:
  assumes "\<not> date_shape dec s"
  shows "\<exists>msg. validate_start_date_format dec utc_today (StrArg s) = Inl (ValueError msg)"
  using assms by (simp add: validate_start_date_format_def fullmatch_date_shape)

lemma validate_short:
  assumes "date_shape dec s" "length s \<noteq> 10"
  shows "validate_start_date_format dec utc_today (StrArg s) = Inr ()"
  using assms by (simp add: validate_start_date_format_def fullmatch_date_shape)

lemma validate_full_date:
  assumes db: "unicode_db dec" and shape: "date_shape dec s" and len: "length s = 10"
  shows "ascii_month_day s \<and> calendar_date (date_of dec s) \<and> \<not> date_gt (date_of dec s) utc_today \<Longrightarrow>
           validate_start_date_format dec utc_today (StrArg s) = Inr ()"
    and "\<not> (ascii_month_day s \<and> calendar_date (date_of dec s) \<and> \<not> date_gt (date_of dec s) utc_today) \<Longrightarrow>
           \<exists>msg. validate_start_date_format dec utc_today (StrArg s) = Inl (ValueError msg)"
proof -
  from shape len obtain y1 y2 y3 y4 m1 m2 d1 d2 where
    s: "s = [y1, y2, y3, y4, 45, m1, m2, 45, d1, d2]"
    and dig: "list_all (is_digit dec) [y1, y2, y3, y4, m1, m2, d1, d2]"
    by (rule date_shape_ten)
  have dt: "date_of dec s = (number dec [y1, y2, y3, y4], number dec [m1, m2], number dec [d1, d2])"
    by (simp add: s date_of_def)
  have fm: "fullmatch dec start_date_pattern s" using shape by (simp add: fullmatch_date_shape)
  have parsed: "strptime_Ymd dec s = Inr (date_of dec s)"
    if "ascii_month_day s \<and> calendar_date (date_of dec s)"
    using that strptime_full_date(1) [OF db dig] unfolding dt unfolding s by blast
  have failed: "\<exists>msg. strptime_Ymd dec s = Inl (ValueError msg)"
    if "\<not> (ascii_month_day s \<and> calendar_date (date_of dec s))"
    using that strptime_full_date(2) [OF db dig] unfolding dt unfolding s by blast
  show "validate_start_date_format dec utc_today (StrArg s) = Inr ()"
    if "ascii_month_day s \<and> calendar_date (date_of dec s) \<and> \<not> date_gt (date_of dec s) utc_today"
    using that parsed fm len by (simp add: validate_start_date_format_def)
  show "\<exists>msg. validate_start_date_format dec utc_today (StrArg s) = Inl (ValueError msg)"
    if neg: "\<not> (ascii_month_day s \<and> calendar_date (date_of dec s) \<and> \<not> date_gt (date_of dec s) utc_today)"
  proof (cases "ascii_month_day s \<and> calendar_date (date_of dec s)")
    case True
    with neg have "date_gt (date_of dec s) utc_today" by blast
    with parsed [OF True] fm len show ?thesis
      by (simp add: validate_start_date_format_def)
  next
    case False
    from failed [OF False] obtain msg where "strptime_Ymd dec s = Inl (ValueError msg)" ..
    with fm len show ?thesis
      by (simp add: validate_start_date_format_def)
  qed
qed

lemma validate_start_date_format_iff:
  assumes db: "unicode_db dec"
  shows "(validate_start_date_format dec utc_today (StrArg s) = Inr () \<longleftrightarrow>
      fullmatch dec start_date_pattern s
      \<and> (length s = 10 \<longrightarrow>
           ascii_month_day s \<and> calendar_date (date_of dec s) \<and> \<not> date_gt (date_of dec s) utc_today))
 \<and> (validate_start_date_format dec utc_today (StrArg s) \<noteq> Inr () \<longrightarrow>
      (\<exists>msg. validate_start_date_format dec utc_today (StrArg s) = Inl (ValueError msg)))"
proof (cases "date_shape dec s")
  case False
  with validate_no_match [OF False, of utc_today] show ?thesis
    by (auto simp: fullmatch_date_shape)
next
  case shape: True
  show ?thesis
  proof (cases "length s = 10")
    case False
    with validate_short [OF shape False, of utc_today] shape show ?thesis
      by (simp add: fullmatch_date_shape)
  next
    case len: True
    show ?thesis
    proof (cases "ascii_month_day s \<and> calendar_date (date_of dec s) \<and> \<not> date_gt (date_of dec s) utc_today")
      case True
      with validate_full_date(1) [OF db shape len, of utc_today] shape len show ?thesis
        by (simp add: fullmatch_date_shape)
    next
      case False
      with validate_full_date(2) [OF db shape len, of utc_today] shape len show ?thesis
        by (auto simp: fullmatch_date_shape)
    qed
  qed
qed


lemma unicode_db_example: "unicode_db ascii_and_arabic_indic"
  by (auto simp: unicode_db_def ascii_and_arabic_indic_def ascii_digit_def)

text \<open>
  Claim C9, as the code has it, for every sound table of decimal digits. For a string
  argument the validator returns normally exactly when the string matches the
  pattern and, if it is ten characters long, has its month and day in ASCII digits
  (the second digit of a day that begins with \<open>1\<close> or \<open>2\<close> may be any decimal digit)
  and names a calendar date that is not after the current UTC date; in every other
  case it raises \<open>ValueError\<close>. The pattern matches exactly the three shapes. So
  \<open>2023\<close> and \<open>2023-02\<close> are accepted, \<open>2023-02-15\<close> passes the pattern, \<open>bad-date\<close>
  raises, and \<open>2099-01-01\<close> raises as long as the current UTC date is before it.
\<close>

theorem validate_start_date_format_accepts:
  assumes db: "unicode_db dec"
  shows "(validate_start_date_format dec utc_today (StrArg s) = Inr () \<longleftrightarrow>
      fullmatch dec start_date_pattern s
      \<and> (length s = 10 \<longrightarrow>
           ascii_month_day s \<and> calendar_date (date_of dec s) \<and> \<not> date_gt (date_of dec s) utc_today))
 \<and> (validate_start_date_format dec utc_today (StrArg s) \<noteq> Inr () \<longrightarrow>
      (\<exists>msg. validate_start_date_format dec utc_today (StrArg s) = Inl (ValueError msg)))
 \<and> (fullmatch dec start_date_pattern s \<longleftrightarrow> date_shape dec s)
 \<and> validate_start_date_format dec utc_today (StrArg (codepoints ''2023'')) = Inr ()
 \<and> validate_start_date_format dec utc_today (StrArg (codepoints ''2023-02'')) = Inr ()
 \<and> fullmatch dec start_date_pattern (codepoints ''2023-02-15'')
 \<and> (\<exists>msg. validate_start_date_format dec utc_today (StrArg (codepoints ''bad-date''))
        = Inl (ValueError msg))
 \<and> (date_gt (2099, 1, 1) utc_today \<longrightarrow>
      (\<exists>msg. validate_start_date_format dec utc_today (StrArg (codepoints ''2099-01-01''))
         = Inl (ValueError msg)))"
proof -
  note ascii = dec_ascii [OF db]
  have shapes: "date_shape dec (codepoints ''2023'')" "date_shape dec (codepoints ''2023-02'')"
    "date_shape dec (codepoints ''2023-02-15'')" "date_shape dec (codepoints ''2099-01-01'')"
    by (simp_all add: codepoints_def is_digit_def ascii)
  have bad: "\<not> date_shape dec (codepoints ''bad-date'')"
    using db by (simp add: codepoints_def is_digit_def unicode_db_def ascii_digit_def)
  have future: "date_of dec (codepoints ''2099-01-01'') = (2099, 1, 1)"
    by (simp add: date_of_def number_def digit_val_def codepoints_def ascii)
  have a: "validate_start_date_format dec utc_today (StrArg (codepoints ''2023'')) = Inr ()"
    and b: "validate_start_date_format dec utc_today (StrArg (codepoints ''2023-02'')) = Inr ()"
    using shapes by (simp_all add: validate_short codepoints_def)
  have c: "fullmatch dec start_date_pattern (codepoints ''2023-02-15'')"
    using shapes by (simp only: fullmatch_date_shape)
  have d: "\<exists>msg. validate_start_date_format dec utc_today (StrArg (codepoints ''bad-date''))
             = Inl (ValueError msg)"
    using bad by (rule validate_no_match)
  have e: "\<exists>msg. validate_start_date_format dec utc_today (StrArg (codepoints ''2099-01-01''))
             = Inl (ValueError msg)"
    if "date_gt (2099, 1, 1) utc_today"
    using that validate_full_date(2) [OF db shapes(4), of utc_today]
    by (simp add: future) (simp add: codepoints_def)
  from validate_start_date_format_iff [OF db, of utc_today s] fullmatch_date_shape [of dec s]
    a b c d e show ?thesis
    by blast
qed

theorem validate_start_date_format_accepts_witness:
  "validate_start_date_format ascii_and_arabic_indic (2026, 11, 3) (StrArg (codepoints ''2023-02-15''))
     = Inr ()
 \<and> validate_start_date_format ascii_and_arabic_indic (2026, 11, 3)
       (StrArg [1634, 1632, 1634, 1635, 45, 48, 50, 45, 49, 1637]) = Inr ()
 \<and> (\<exists>msg. validate_start_date_format ascii_and_arabic_indic (2026, 11, 3)
       (StrArg (codepoints ''2099-01-01'')) = Inl (ValueError msg))
 \<and> (\<exists>msg. validate_start_date_format ascii_and_arabic_indic (2026, 11, 3)
       (StrArg (codepoints ''2023-02-30'')) = Inl (ValueError msg))
 \<and> (\<exists>msg. validate_start_date_format ascii_and_arabic_indic (2026, 11, 3)
       (StrArg (codepoints ''2023-2-15'')) = Inl (ValueError msg))"
proof -
  note ev = codepoints_def fullmatch_def start_date_pattern_def rests_applied is_digit_def
    ascii_and_arabic_indic_def date_of_def calendar_date_def number_def digit_val_def
    days_in_month_def is_leap_def date_gt_def ascii_digit_def
  have m: "fullmatch ascii_and_arabic_indic start_date_pattern (codepoints ''2023-02-15'')"
    "fullmatch ascii_and_arabic_indic start_date_pattern [1634, 1632, 1634, 1635, 45, 48, 50, 45, 49, 1637]"
    "\<not> fullmatch ascii_and_arabic_indic start_date_pattern (codepoints ''2023-2-15'')"
    "fullmatch ascii_and_arabic_indic start_date_pattern (codepoints ''2023-02-30'')"
    by (simp_all del: rests.simps add: ev)
  have d: "ascii_month_day (codepoints ''2023-02-15'')"
    "calendar_date (date_of ascii_and_arabic_indic (codepoints ''2023-02-15''))"
    "\<not> date_gt (date_of ascii_and_arabic_indic (codepoints ''2023-02-15'')) (2026, 11, 3)"
    "ascii_month_day [1634, 1632, 1634, 1635, 45, 48, 50, 45, 49, 1637]"
    "calendar_date (date_of ascii_and_arabic_indic [1634, 1632, 1634, 1635, 45, 48, 50, 45, 49, 1637])"
    "\<not> date_gt (date_of ascii_and_arabic_indic [1634, 1632, 1634, 1635, 45, 48, 50, 45, 49, 1637]) (2026, 11, 3)"
    "date_gt (2099, 1, 1) (2026, 11, 3)"
    "\<not> calendar_date (date_of ascii_and_arabic_indic (codepoints ''2023-02-30''))"
    "length (codepoints ''2023-02-30'') = 10"
    by (simp_all add: ev)
  show ?thesis
    using validate_start_date_format_accepts [OF unicode_db_example, of "(2026, 11, 3)" "codepoints ''2023-02-15''"]
      validate_start_date_format_accepts [OF unicode_db_example, of "(2026, 11, 3)" "[1634, 1632, 1634, 1635, 45, 48, 50, 45, 49, 1637]"]
      validate_start_date_format_accepts [OF unicode_db_example, of "(2026, 11, 3)" "codepoints ''2023-02-30''"]
      validate_start_date_format_accepts [OF unicode_db_example, of "(2026, 11, 3)" "codepoints ''2023-2-15''"]
      m d
    by simp
qed

text \<open>
  Claim C9 as stated fails for a string of ten characters whose month is written
  with a decimal digit that is not ASCII: \<open>2023-0\<close>, the Arabic-Indic digit two,
  \<open>-15\<close> matches the pattern and names the fifteenth of February 2023, a calendar
  date that is not after the third of November 2026, and the validator raises.
\<close>

theorem past_date_with_other_digit_in_month_raises:
  "fullmatch ascii_and_arabic_indic start_date_pattern [50, 48, 50, 51, 45, 48, 1634, 45, 49, 53]
 \<and> length [50, 48, 50, 51, 45, 48, 1634, 45, 49, 53 :: nat] = 10
 \<and> date_of ascii_and_arabic_indic [50, 48, 50, 51, 45, 48, 1634, 45, 49, 53] = (2023, 2, 15)
 \<and> calendar_date (2023, 2, 15)
 \<and> \<not> date_gt (2023, 2, 15) (2026, 11, 3)
 \<and> validate_start_date_format ascii_and_arabic_indic (2026, 11, 3)
       (StrArg [50, 48, 50, 51, 45, 48, 1634, 45, 49, 53]) \<noteq> Inr ()"
  by (simp del: rests.simps add: validate_start_date_format_def fullmatch_def start_date_pattern_def
        rests_applied is_digit_def ascii_and_arabic_indic_def date_of_def calendar_date_def
        number_def digit_val_def days_in_month_def is_leap_def date_gt_def strptime_Ymd_def
        strptime_matches_def year_alts_def dash_def month_alts_def day_alts_def two_chars_def
        one_char_def one_or_two_then_digit_def codepoints_def)

lemma validate_not_future_date_iff:
  "validate_not_future_date utc_today v = Inr () \<longleftrightarrow> \<not> date_gt v utc_today"
  by (simp add: validate_not_future_date_def)

end
